theory Spec2Isabelle
  imports Main "HOL-Library.Sublist"
begin

section \<open>Values of the JavaScript runtime\<close>

text \<open>
  The handlers work on dynamically typed values: the request body, the rows' article
  fields and every decoded HTTP body are whatever \<open>JSON.parse\<close> produced, and the code
  branches on their truthiness. Numbers are modelled as integers.
\<close>

datatype json =
    JUndefined
  | JNull
  | JBool bool
  | JNum int
  | JStr string
  | JArr "json list"
  | JObj "(string \<times> json) list"

text \<open>An awaited call either rejects with an error (its \<open>message\<close>) or yields a value.\<close>

datatype 'a outcome = Throws string | Returns 'a

fun truthy :: "json \<Rightarrow> bool" where
  "truthy JUndefined = False"
| "truthy JNull = False"
| "truthy (JBool b) = b"
| "truthy (JNum n) = (n \<noteq> 0)"
| "truthy (JStr s) = (s \<noteq> [])"
| "truthy (JArr xs) = True"
| "truthy (JObj kvs) = True"

text \<open>\<open>a || b\<close>\<close>

definition js_or :: "json \<Rightarrow> json \<Rightarrow> json" where
  "js_or a b = (if truthy a then a else b)"

text \<open>
  Property read \<open>v.k\<close>: a \<open>TypeError\<close> on \<open>null\<close> and \<open>undefined\<close>, the stored value
  on an object that has the key, \<open>undefined\<close> otherwise (members inherited from the
  prototypes of primitives are not modelled).
\<close>

fun get_prop :: "json \<Rightarrow> string \<Rightarrow> json outcome" where
  "get_prop JUndefined k = Throws ''Cannot read properties of undefined''"
| "get_prop JNull k = Throws ''Cannot read properties of null''"
| "get_prop (JObj kvs) k = Returns (case map_of kvs k of None \<Rightarrow> JUndefined | Some v \<Rightarrow> v)"
| "get_prop v k = Returns JUndefined"

fun string_of_nat :: "nat \<Rightarrow> string" where
  "string_of_nat n =
     (if n < 10 then [''0123456789'' ! n]
      else string_of_nat (n div 10) @ [''0123456789'' ! (n mod 10)])"

declare string_of_nat.simps [simp del]

definition string_of_int :: "int \<Rightarrow> string" where
  "string_of_int i = (if i < 0 then CHR ''-'' # string_of_nat (nat (- i)) else string_of_nat (nat i))"

fun join_comma :: "string list \<Rightarrow> string" where
  "join_comma [] = []"
| "join_comma [s] = s"
| "join_comma (s # t # ts) = s @ '','' @ join_comma (t # ts)"

text \<open>String conversion, as a template literal \<open>`${v}`\<close> performs it.\<close>

fun js_string :: "json \<Rightarrow> string" where
  "js_string JUndefined = ''undefined''"
| "js_string JNull = ''null''"
| "js_string (JBool b) = (if b then ''true'' else ''false'')"
| "js_string (JNum n) = string_of_int n"
| "js_string (JStr s) = s"
| "js_string (JArr xs) =
     join_comma (map (\<lambda>x. if x = JNull \<or> x = JUndefined then [] else js_string x) xs)"
| "js_string (JObj kvs) = ''[object Object]''"

section \<open>Data model\<close>

text \<open>A stored row, with the fields the handlers read.\<close>

record tweet =
  row_id :: int
  username :: string
  tweet_id :: string
  article_english :: json
  article_french :: json
  media_urls :: "string option"

text \<open>The result of a successful media upload.\<close>

record uploaded =
  mediaId :: json
  url :: json

text \<open>
  What \<open>fetch\<close> resolves to: the status, the \<open>Content-Type\<close> header and what a first read
  of the body as JSON, as text or as bytes gives.
\<close>

record fetch_response =
  http_status :: nat
  content_type :: "string option"
  body_json :: "json outcome"
  body_text :: "string outcome"
  body_arrayBuffer :: "string outcome"

definition ok :: "fetch_response \<Rightarrow> bool" where
  "ok r = (200 \<le> http_status r \<and> http_status r \<le> 299)"

text \<open>
  The body of a response can be read once: \<open>response.text()\<close> on a response whose body an
  earlier read has used (\<open>bodyUsed\<close>, also when that read failed to parse) rejects.
\<close>

definition read_text :: "bool \<Rightarrow> fetch_response \<Rightarrow> string outcome" where
  "read_text bodyUsed r =
     (if bodyUsed then Throws ''Body is unusable: Body has already been read'' else body_text r)"

text \<open>What a handler answers: \<open>NextResponse.json(body, {status})\<close>.\<close>

record reply =
  reply_status :: nat
  reply_body :: json

definition NextResponse_json :: "json \<Rightarrow> nat \<Rightarrow> reply" where
  "NextResponse_json b st = \<lparr>reply_status = st, reply_body = b\<rparr>"

text \<open>
  \<open>NextResponse.json(body, {status})\<close> with a status that is not a literal of the code: the
  constructor throws a \<open>RangeError\<close> for a status outside 200..599 and a \<open>TypeError\<close> for
  a body with one of the null-body statuses 204, 205 and 304. The literal statuses of the
  handlers (200, 400, 404, 500) pass both tests.
\<close>

definition NextResponse_json_checked :: "json \<Rightarrow> nat \<Rightarrow> reply outcome" where
  "NextResponse_json_checked b st =
     (if st < 200 \<or> 599 < st then Throws ''init status must be in the range of 200 to 599, inclusive.''
      else if st = 204 \<or> st = 205 \<or> st = 304
      then Throws (''Response constructor: Invalid response status code '' @ string_of_nat st)
      else Returns (NextResponse_json b st))"

section \<open>The environment\<close>

text \<open>
  Everything outside the two source files is a parameter: the runtime's builtins as pure
  functions, and the store, the settings and the network as operations on a world \<open>'w\<close>
  that each may reject. The tweet store and the settings live in \<open>@/lib/db\<close>.
\<close>

record 'w env =
  parseInt :: "string \<Rightarrow> int option"
  JSON_parse :: "string \<Rightarrow> json outcome"
  marked :: "json \<Rightarrow> string outcome"
  base64 :: "string \<Rightarrow> string"
  URL_pathname :: "json \<Rightarrow> string outcome"
  Date_now :: "'w \<Rightarrow> nat"
  request_json :: "'w \<Rightarrow> json outcome \<times> 'w"
  tweets_getCount :: "'w \<Rightarrow> nat outcome \<times> 'w"
  tweets_deleteAll :: "'w \<Rightarrow> nat outcome \<times> 'w"
  tweets_getAll :: "nat \<Rightarrow> nat \<Rightarrow> 'w \<Rightarrow> tweet list outcome \<times> 'w"
  tweets_updatePublished :: "int \<Rightarrow> string \<Rightarrow> bool \<Rightarrow> json \<Rightarrow> 'w \<Rightarrow> bool outcome \<times> 'w"
  settings_get :: "string \<Rightarrow> 'w \<Rightarrow> string option outcome \<times> 'w"
  fetch_image :: "json \<Rightarrow> 'w \<Rightarrow> fetch_response outcome \<times> 'w"
  fetch_post_media :: "string \<Rightarrow> string \<Rightarrow> string \<Rightarrow> string \<Rightarrow> string \<Rightarrow> 'w \<Rightarrow> fetch_response outcome \<times> 'w"
  fetch_post_json :: "string \<Rightarrow> string \<Rightarrow> json \<Rightarrow> 'w \<Rightarrow> fetch_response outcome \<times> 'w"

text \<open>
  The calls a handler makes on the store, the settings and the network are recorded in
  order; an HTTP call is recorded with what it resolved to.
\<close>

datatype event =
    GetCount
  | DeleteAll
  | GetAll nat nat
  | UpdatePublished int string bool json
  | SettingsGet string
  | ImageDownload json "fetch_response outcome"
  | MediaUpload string string string "fetch_response outcome"
  | PostCreate string string json "fetch_response outcome"

type_synonym 'w state = "'w \<times> event list"

definition do_getCount :: "'w env \<Rightarrow> 'w state \<Rightarrow> nat outcome \<times> 'w state" where
  "do_getCount env s =
     (case tweets_getCount env (fst s) of (r, w) \<Rightarrow> (r, (w, snd s @ [GetCount])))"

definition do_deleteAll :: "'w env \<Rightarrow> 'w state \<Rightarrow> nat outcome \<times> 'w state" where
  "do_deleteAll env s =
     (case tweets_deleteAll env (fst s) of (r, w) \<Rightarrow> (r, (w, snd s @ [DeleteAll])))"

definition do_getAll :: "'w env \<Rightarrow> nat \<Rightarrow> nat \<Rightarrow> 'w state \<Rightarrow> tweet list outcome \<times> 'w state" where
  "do_getAll env limit offset s =
     (case tweets_getAll env limit offset (fst s) of
        (r, w) \<Rightarrow> (r, (w, snd s @ [GetAll limit offset])))"

definition do_updatePublished ::
  "'w env \<Rightarrow> int \<Rightarrow> string \<Rightarrow> bool \<Rightarrow> json \<Rightarrow> 'w state \<Rightarrow> bool outcome \<times> 'w state" where
  "do_updatePublished env i language published link s =
     (case tweets_updatePublished env i language published link (fst s) of
        (r, w) \<Rightarrow> (r, (w, snd s @ [UpdatePublished i language published link])))"

definition do_settings_get :: "'w env \<Rightarrow> string \<Rightarrow> 'w state \<Rightarrow> string option outcome \<times> 'w state" where
  "do_settings_get env k s =
     (case settings_get env k (fst s) of (r, w) \<Rightarrow> (r, (w, snd s @ [SettingsGet k])))"

definition do_fetch_image :: "'w env \<Rightarrow> json \<Rightarrow> 'w state \<Rightarrow> fetch_response outcome \<times> 'w state" where
  "do_fetch_image env imageUrl s =
     (case fetch_image env imageUrl (fst s) of
        (r, w) \<Rightarrow> (r, (w, snd s @ [ImageDownload imageUrl r])))"

definition do_fetch_post_media ::
  "'w env \<Rightarrow> string \<Rightarrow> string \<Rightarrow> string \<Rightarrow> string \<Rightarrow> string \<Rightarrow> 'w state
     \<Rightarrow> fetch_response outcome \<times> 'w state" where
  "do_fetch_post_media env wpMediaUrl auth filename contentType imgBuffer s =
     (case fetch_post_media env wpMediaUrl auth filename contentType imgBuffer (fst s) of
        (r, w) \<Rightarrow> (r, (w, snd s @ [MediaUpload wpMediaUrl auth filename r])))"

definition do_fetch_post_json ::
  "'w env \<Rightarrow> string \<Rightarrow> string \<Rightarrow> json \<Rightarrow> 'w state \<Rightarrow> fetch_response outcome \<times> 'w state" where
  "do_fetch_post_json env wpApiUrl auth postData s =
     (case fetch_post_json env wpApiUrl auth postData (fst s) of
        (r, w) \<Rightarrow> (r, (w, snd s @ [PostCreate wpApiUrl auth postData r])))"

section \<open>The bulk delete handler\<close>

definition delete_failed :: "string \<Rightarrow> reply" where
  "delete_failed message =
     NextResponse_json (JObj [(''error'', JStr ''Failed to delete tweets''), (''message'', JStr message)]) 500"

definition delete_done :: "nat \<Rightarrow> reply" where
  "delete_done deletedCount =
     NextResponse_json
       (JObj [(''success'', JBool True),
              (''deletedCount'', JNum (int deletedCount)),
              (''message'', JStr (''Successfully deleted '' @ string_of_nat deletedCount @ '' tweet(s)''))])
       200"

definition DELETE :: "'w env \<Rightarrow> 'w state \<Rightarrow> reply \<times> 'w state" where
  "DELETE env s =
     (case do_getCount env s of
        (Throws e, s1) \<Rightarrow> (delete_failed e, s1)
      | (Returns countBefore, s1) \<Rightarrow>
          (case do_deleteAll env s1 of
             (Throws e, s2) \<Rightarrow> (delete_failed e, s2)
           | (Returns deletedCount, s2) \<Rightarrow> (delete_done deletedCount, s2)))"

text \<open>
  The tweet store of \<open>@/lib/db\<close> is not among the sources. Where a statement needs the
  store itself, it is the list of its rows, with the three operations below.
\<close>

text \<open>Modelled from the spec: \<open>getCount\<close>, missing from the sources, reads the current row count.\<close>

definition store_getCount :: "tweet list \<Rightarrow> nat outcome \<times> tweet list" where
  "store_getCount rows = (Returns (length rows), rows)"

text \<open>
  Modelled from the spec: \<open>deleteAll\<close>, missing from the sources, deletes all rows and
  returns how many it deleted.
\<close>

definition store_deleteAll :: "tweet list \<Rightarrow> nat outcome \<times> tweet list" where
  "store_deleteAll rows = (Returns (length rows), [])"

text \<open>
  Modelled from the spec: \<open>getAll(limit, offset)\<close>, missing from the sources, returns the
  window of at most \<open>limit\<close> rows that starts at \<open>offset\<close>.
\<close>

definition store_getAll :: "nat \<Rightarrow> nat \<Rightarrow> tweet list \<Rightarrow> tweet list outcome \<times> tweet list" where
  "store_getAll limit offset rows = (Returns (take limit (drop offset rows)), rows)"

text \<open>An environment whose tweet store is this one.\<close>

definition with_store :: "tweet list env \<Rightarrow> tweet list env" where
  "with_store base =
     base\<lparr>tweets_getCount := store_getCount,
          tweets_deleteAll := store_deleteAll,
          tweets_getAll := store_getAll\<rparr>"

section \<open>The image uploader\<close>

fun and_then :: "'a outcome \<Rightarrow> ('a \<Rightarrow> 'b outcome) \<Rightarrow> 'b outcome" where
  "and_then (Throws e) f = Throws e"
| "and_then (Returns x) f = f x"

text \<open>\<open>s.replace(/\/$/, '')\<close>\<close>

definition strip_trailing_slash :: "string \<Rightarrow> string" where
  "strip_trailing_slash s = (if s \<noteq> [] \<and> last s = CHR ''/'' then butlast s else s)"

text \<open>\<open>urlPath.split('/').pop()?.split('?')[0] || 'tweet_image.jpg'\<close>\<close>

definition filename_of_path :: "string \<Rightarrow> string" where
  "filename_of_path urlPath =
     (let seg = takeWhile (\<lambda>c. c \<noteq> CHR ''?'') (rev (takeWhile (\<lambda>c. c \<noteq> CHR ''/'') (rev urlPath)))
      in if seg = [] then ''tweet_image.jpg'' else seg)"

text \<open>\<open>headers.get('Content-Type') || 'image/jpeg'\<close>\<close>

definition content_type_or_jpeg :: "fetch_response \<Rightarrow> string" where
  "content_type_or_jpeg r =
     (case content_type r of None \<Rightarrow> ''image/jpeg'' | Some c \<Rightarrow> if c = [] then ''image/jpeg'' else c)"

definition ext_of_content_type :: "string \<Rightarrow> string" where
  "ext_of_content_type contentType =
     (if sublist ''png'' contentType then ''png''
      else if sublist ''gif'' contentType then ''gif''
      else if sublist ''webp'' contentType then ''webp'' else ''jpg'')"

definition choose_filename :: "string \<Rightarrow> fetch_response \<Rightarrow> nat \<Rightarrow> string" where
  "choose_filename urlPath imgResponse now =
     (let filename = filename_of_path urlPath
      in if filename = [] \<or> CHR ''.'' \<notin> set filename
         then ''tweet_image_'' @ string_of_nat now @ ''.'' @ ext_of_content_type (content_type_or_jpeg imgResponse)
         else filename)"

definition basic_auth :: "'w env \<Rightarrow> string \<Rightarrow> string \<Rightarrow> string" where
  "basic_auth env wpUsername wpPassword = ''Basic '' @ base64 env (wpUsername @ '':'' @ wpPassword)"

text \<open>\<open>mediaData.source_url || mediaData.guid?.rendered || mediaData.link\<close>\<close>

definition uploaded_url :: "json \<Rightarrow> json outcome" where
  "uploaded_url mediaData =
     and_then (get_prop mediaData ''source_url'') (\<lambda>source_url.
       if truthy source_url then Returns source_url
       else and_then (get_prop mediaData ''guid'') (\<lambda>guid.
         and_then (if guid = JNull \<or> guid = JUndefined then Returns JUndefined
                   else get_prop guid ''rendered'') (\<lambda>rendered.
           if truthy rendered then Returns rendered else get_prop mediaData ''link'')))"

text \<open>The branch taken on a 201 from the media endpoint, after the body was decoded.\<close>

definition read_media :: "json \<Rightarrow> uploaded option outcome" where
  "read_media mediaData =
     and_then (uploaded_url mediaData) (\<lambda>uploadedUrl.
       and_then (get_prop mediaData ''id'') (\<lambda>mediaId.
         if truthy uploadedUrl \<and> truthy mediaId
         then Returns (Some \<lparr>mediaId = mediaId, url = uploadedUrl\<rparr>)
         else Returns None))"

text \<open>The body of the uploader's \<open>try\<close> block.\<close>

definition uploadImage_try ::
  "'w env \<Rightarrow> json \<Rightarrow> string \<Rightarrow> string \<Rightarrow> string \<Rightarrow> 'w state \<Rightarrow> uploaded option outcome \<times> 'w state" where
  "uploadImage_try env imageUrl wpUrl wpUsername wpPassword s =
     (case do_fetch_image env imageUrl s of
        (Throws e, s1) \<Rightarrow> (Throws e, s1)
      | (Returns imgResponse, s1) \<Rightarrow>
          if \<not> ok imgResponse then (Returns None, s1)
          else
            (case URL_pathname env imageUrl of
               Throws e \<Rightarrow> (Throws e, s1)
             | Returns urlPath \<Rightarrow>
                 let filename = choose_filename urlPath imgResponse (Date_now env (fst s1)) in
                 (case body_arrayBuffer imgResponse of
                    Throws e \<Rightarrow> (Throws e, s1)
                  | Returns imgBuffer \<Rightarrow>
                      let contentType = content_type_or_jpeg imgResponse;
                          wpMediaUrl = strip_trailing_slash wpUrl @ ''/wp-json/wp/v2/media'';
                          auth = basic_auth env wpUsername wpPassword
                      in
                      (case do_fetch_post_media env wpMediaUrl auth filename contentType imgBuffer s1 of
                         (Throws e, s2) \<Rightarrow> (Throws e, s2)
                       | (Returns uploadResponse, s2) \<Rightarrow>
                           if http_status uploadResponse = 201
                           then (and_then (body_json uploadResponse) read_media, s2)
                           else (and_then (body_text uploadResponse) (\<lambda>errorText. Returns None), s2)))))"

text \<open>The uploader: the \<open>catch\<close> turns every error of the body into \<open>null\<close>.\<close>

definition uploadImageToWordPress ::
  "'w env \<Rightarrow> json \<Rightarrow> string \<Rightarrow> string \<Rightarrow> string \<Rightarrow> 'w state \<Rightarrow> uploaded option outcome \<times> 'w state" where
  "uploadImageToWordPress env imageUrl wpUrl wpUsername wpPassword s =
     (case uploadImage_try env imageUrl wpUrl wpUsername wpPassword s of
        (Throws e, s1) \<Rightarrow> (Returns None, s1)
      | (Returns r, s1) \<Rightarrow> (Returns r, s1))"

section \<open>The publish handler\<close>

definition error_reply :: "string \<Rightarrow> nat \<Rightarrow> reply" where
  "error_reply msg st = NextResponse_json (JObj [(''error'', JStr msg)]) st"

text \<open>\<open>const { language, published, status } = await request.json()\<close>\<close>

definition destructure_body :: "json \<Rightarrow> (json \<times> json \<times> json) outcome" where
  "destructure_body body =
     and_then (get_prop body ''language'') (\<lambda>language.
       and_then (get_prop body ''published'') (\<lambda>published.
         and_then (get_prop body ''status'') (\<lambda>status. Returns (language, published, status))))"

text \<open>The unpublish branch.\<close>

definition unpublish :: "'w env \<Rightarrow> int \<Rightarrow> string \<Rightarrow> 'w state \<Rightarrow> reply outcome \<times> 'w state" where
  "unpublish env i language s =
     (case do_updatePublished env i language False JNull s of
        (Throws e, s1) \<Rightarrow> (Throws e, s1)
      | (Returns success, s1) \<Rightarrow>
          if \<not> success then (Returns (error_reply ''Failed to update tweet status'' 500), s1)
          else (Returns (NextResponse_json (JObj [(''success'', JBool True)]) 200), s1))"

text \<open>\<open>typeof articleContent === 'string' ? JSON.parse(articleContent) : articleContent\<close>\<close>

definition decode_article :: "'w env \<Rightarrow> json \<Rightarrow> json outcome" where
  "decode_article env articleContent =
     (case articleContent of JStr str \<Rightarrow> JSON_parse env str | _ \<Rightarrow> Returns articleContent)"

text \<open>\<open>!articleData.title || (!articleData.article && !articleData.content)\<close>\<close>

definition article_incomplete :: "json \<Rightarrow> bool outcome" where
  "article_incomplete articleData =
     and_then (get_prop articleData ''title'') (\<lambda>title.
       if \<not> truthy title then Returns True
       else and_then (get_prop articleData ''article'') (\<lambda>article.
         if truthy article then Returns False
         else and_then (get_prop articleData ''content'') (\<lambda>content. Returns (\<not> truthy content))))"

text \<open>The url of one entry of the decoded media list, as the \<open>forEach\<close> callback computes it.\<close>

definition media_item_url :: "json \<Rightarrow> json outcome" where
  "media_item_url mediaItem =
     (case mediaItem of
        JStr str \<Rightarrow> Returns mediaItem
      | _ \<Rightarrow>
          and_then (get_prop mediaItem ''mediaUrl'') (\<lambda>mediaUrl.
            if truthy mediaUrl then Returns mediaUrl
            else and_then (get_prop mediaItem ''url'') (\<lambda>u. Returns (js_or u JNull))))"

text \<open>
  The \<open>forEach\<close> over the decoded array, pushing onto \<open>mediaUrls\<close>: an entry whose url
  cannot be read throws out of the loop, and the surrounding \<open>catch\<close> keeps what was
  pushed so far.
\<close>

fun collect_media :: "json list \<Rightarrow> json list \<Rightarrow> json list" where
  "collect_media [] mediaUrls = mediaUrls"
| "collect_media (mediaItem # rest) mediaUrls =
     (case media_item_url mediaItem of
        Throws e \<Rightarrow> mediaUrls
      | Returns u \<Rightarrow> collect_media rest (if truthy u then mediaUrls @ [u] else mediaUrls))"

definition decode_media :: "'w env \<Rightarrow> string option \<Rightarrow> json list" where
  "decode_media env media_field =
     (case (case media_field of
              None \<Rightarrow> Returns (JArr [])
            | Some str \<Rightarrow> if str = [] then Returns (JArr []) else JSON_parse env str) of
        Throws e \<Rightarrow> []
      | Returns media \<Rightarrow> (case media of JArr items \<Rightarrow> collect_media items [] | _ \<Rightarrow> []))"

text \<open>The upload loop: one call of the uploader per url, in order.\<close>

fun upload_images ::
  "'w env \<Rightarrow> json list \<Rightarrow> string \<Rightarrow> string \<Rightarrow> string \<Rightarrow> uploaded list \<Rightarrow> 'w state
     \<Rightarrow> uploaded list outcome \<times> 'w state" where
  "upload_images env [] wpUrl wpUsername wpPassword uploadedImages s = (Returns uploadedImages, s)"
| "upload_images env (imageUrl # rest) wpUrl wpUsername wpPassword uploadedImages s =
     (case uploadImageToWordPress env imageUrl wpUrl wpUsername wpPassword s of
        (Throws e, s1) \<Rightarrow> (Throws e, s1)
      | (Returns uploadResult, s1) \<Rightarrow>
          upload_images env rest wpUrl wpUsername wpPassword
            (case uploadResult of None \<Rightarrow> uploadedImages | Some r \<Rightarrow> uploadedImages @ [r]) s1)"

definition featured_media_id :: "uploaded list \<Rightarrow> json" where
  "featured_media_id uploadedImages =
     (case uploadedImages of [] \<Rightarrow> JNull | first # others \<Rightarrow> mediaId first)"

definition figure_html :: "json \<Rightarrow> nat \<Rightarrow> string" where
  \<open>figure_html u i =
     ''<figure style="margin: 0; text-align: center;">\<newline>          <img src="'' @ js_string u
     @ ''" alt="Article image '' @ string_of_nat i
     @ ''" style="max-width: 100%; height: auto; border-radius: 8px; box-shadow: 0 2px 8px rgba(0,0,0,0.1);" />\<newline>        </figure>''\<close>

definition gallery_open :: string where
  \<open>gallery_open =
     ''<div class="article-images" style="margin: 30px 0; display: flex; flex-direction: column; gap: 20px;">''\<close>

definition images_html :: "uploaded list \<Rightarrow> string" where
  \<open>images_html uploadedImages =
     (if length uploadedImages > 1
      then gallery_open
           @ concat (map (\<lambda>i. figure_html (url (uploadedImages ! i)) i) [1 ..< length uploadedImages])
           @ ''</div>''
      else [])\<close>

definition full_content :: "string \<Rightarrow> string \<Rightarrow> tweet \<Rightarrow> string" where
  \<open>full_content articleHtml imagesHtml tweet =
     articleHtml @ ''\<newline>'' @ imagesHtml
     @ ''\<newline><hr>\<newline><p><em>Source: <a href="https://twitter.com/'' @ username tweet
     @ ''/status/'' @ tweet_id tweet
     @ ''" target="_blank">Original Tweet</a></em></p>''\<close>

definition post_data :: "json \<Rightarrow> string \<Rightarrow> json \<Rightarrow> json \<Rightarrow> json" where
  "post_data title fullContent status featuredMediaId =
     JObj ([(''title'', title),
            (''content'', JStr fullContent),
            (''status'', js_or status (JStr ''publish''))]
           @ (if truthy featuredMediaId then [(''featured_media'', featuredMediaId)] else []))"

text \<open>
  The answer to a post-creation response other than 201. The fallback \<open>response.text()\<close>
  runs after \<open>response.json()\<close> has read the body; both it and the construction of the
  answer at the upstream status can throw, into the handler's \<open>catch\<close>.
\<close>

definition wordpress_error :: "fetch_response \<Rightarrow> reply outcome" where
  "wordpress_error response =
     and_then (case body_json response of
                 Returns d \<Rightarrow> Returns d
               | Throws e \<Rightarrow> and_then (read_text True response) (\<lambda>t. Returns (JObj [(''error'', JStr t)])))
       (\<lambda>errorData.
          NextResponse_json_checked
            (JObj [(''error'', JStr (''WordPress API error: '' @ string_of_nat (http_status response))),
                   (''details'', errorData)])
            (http_status response))"

text \<open>After a 201: decode the created post, record it in the store, answer.\<close>

definition record_published ::
  "'w env \<Rightarrow> int \<Rightarrow> string \<Rightarrow> fetch_response \<Rightarrow> 'w state \<Rightarrow> reply outcome \<times> 'w state" where
  "record_published env i language response s =
     (case and_then (body_json response) (\<lambda>publishData.
             and_then (get_prop publishData ''link'') (\<lambda>link.
               and_then (get_prop publishData ''id'') (\<lambda>post_id. Returns (link, post_id)))) of
        Throws e \<Rightarrow> (Throws e, s)
      | Returns (link, post_id) \<Rightarrow>
          (case do_updatePublished env i language True link s of
             (Throws e, s1) \<Rightarrow> (Throws e, s1)
           | (Returns success, s1) \<Rightarrow>
               if \<not> success then (Returns (error_reply ''Failed to update tweet status'' 500), s1)
               else (Returns (NextResponse_json
                                (JObj [(''success'', JBool True),
                                       (''post_id'', post_id),
                                       (''link'', link),
                                       (''message'', JStr (''Article published successfully to '' @ language
                                                           @ '' WordPress site''))])
                                200), s1)))"

text \<open>From the upload loop to the answer, once the credentials are known.\<close>

definition submit_post ::
  "'w env \<Rightarrow> int \<Rightarrow> string \<Rightarrow> json \<Rightarrow> tweet \<Rightarrow> json \<Rightarrow> json \<Rightarrow> json list
     \<Rightarrow> string \<Rightarrow> string \<Rightarrow> string \<Rightarrow> 'w state \<Rightarrow> reply outcome \<times> 'w state" where
  "submit_post env i language status tweet title markdown mediaUrls wpUrl wpUsername wpPassword s =
     (let wpApiUrl = strip_trailing_slash wpUrl @ ''/wp-json/wp/v2/posts'' in
      case upload_images env mediaUrls wpUrl wpUsername wpPassword [] s of
        (Throws e, s1) \<Rightarrow> (Throws e, s1)
      | (Returns uploadedImages, s1) \<Rightarrow>
          let featuredMediaId = featured_media_id uploadedImages in
          (case marked env markdown of
             Throws e \<Rightarrow> (Throws e, s1)
           | Returns articleHtml \<Rightarrow>
               let imagesHtml = images_html uploadedImages;
                   fullContent = full_content articleHtml imagesHtml tweet;
                   postData = post_data title fullContent status featuredMediaId;
                   auth = basic_auth env wpUsername wpPassword
               in
               (case do_fetch_post_json env wpApiUrl auth postData s1 of
                  (Throws e, s2) \<Rightarrow> (Throws e, s2)
                | (Returns response, s2) \<Rightarrow>
                    if http_status response \<noteq> 201 then (wordpress_error response, s2)
                    else record_published env i language response s2)))"

definition opt_truthy :: "string option \<Rightarrow> bool" where
  "opt_truthy v = (case v of None \<Rightarrow> False | Some str \<Rightarrow> str \<noteq> [])"

text \<open>The three \<open>settings.get\<close> calls for the language.\<close>

definition read_credentials ::
  "'w env \<Rightarrow> string \<Rightarrow> 'w state \<Rightarrow> (string option \<times> string option \<times> string option) outcome \<times> 'w state" where
  "read_credentials env language s =
     (case do_settings_get env
             (if language = ''english'' then ''wordpressEnglishUrl'' else ''wordpressFrenchUrl'') s of
        (Throws e, s1) \<Rightarrow> (Throws e, s1)
      | (Returns wpUrl, s1) \<Rightarrow>
          (case do_settings_get env
                  (if language = ''english'' then ''wordpressEnglishUsername''
                   else ''wordpressFrenchUsername'') s1 of
             (Throws e, s2) \<Rightarrow> (Throws e, s2)
           | (Returns wpUsername, s2) \<Rightarrow>
               (case do_settings_get env
                       (if language = ''english'' then ''wordpressEnglishPassword''
                        else ''wordpressFrenchPassword'') s2 of
                  (Throws e, s3) \<Rightarrow> (Throws e, s3)
                | (Returns wpPassword, s3) \<Rightarrow> (Returns (wpUrl, wpUsername, wpPassword), s3))))"

text \<open>\<open>articleData.title\<close> and \<open>articleData.article || articleData.content || ''\<close>\<close>

definition title_and_markdown :: "json \<Rightarrow> (json \<times> json) outcome" where
  "title_and_markdown articleData =
     and_then (get_prop articleData ''title'') (\<lambda>title.
       and_then (get_prop articleData ''article'') (\<lambda>article.
         if truthy article then Returns (title, article)
         else and_then (get_prop articleData ''content'') (\<lambda>content.
           Returns (title, js_or content (JStr [])))))"

text \<open>The publish branch once the article is decoded and complete.\<close>

definition publish_article ::
  "'w env \<Rightarrow> int \<Rightarrow> string \<Rightarrow> json \<Rightarrow> tweet \<Rightarrow> json \<Rightarrow> 'w state \<Rightarrow> reply outcome \<times> 'w state" where
  "publish_article env i language status tweet articleData s =
     (let mediaUrls = decode_media env (media_urls tweet) in
      case read_credentials env language s of
        (Throws e, s1) \<Rightarrow> (Throws e, s1)
      | (Returns (wpUrl, wpUsername, wpPassword), s1) \<Rightarrow>
          if \<not> opt_truthy wpUrl \<or> \<not> opt_truthy wpUsername \<or> \<not> opt_truthy wpPassword
          then (Returns (error_reply (''WordPress credentials for '' @ language
                                      @ '' not configured. Please set them in Settings.'') 500), s1)
          else
            (case title_and_markdown articleData of
               Throws e \<Rightarrow> (Throws e, s1)
             | Returns (title, markdown) \<Rightarrow>
                 submit_post env i language status tweet title markdown mediaUrls
                   (the wpUrl) (the wpUsername) (the wpPassword) s1))"

text \<open>The publish branch, from the choice of the article on.\<close>

definition publish ::
  "'w env \<Rightarrow> int \<Rightarrow> string \<Rightarrow> json \<Rightarrow> tweet \<Rightarrow> 'w state \<Rightarrow> reply outcome \<times> 'w state" where
  "publish env i language status tweet s =
     (let articleContent = (if language = ''english'' then article_english tweet else article_french tweet) in
      if \<not> truthy articleContent
      then (Returns (error_reply (''Article not generated for '' @ language @ '' language'') 400), s)
      else
        (case decode_article env articleContent of
           Throws e \<Rightarrow> (Returns (error_reply ''Invalid article data format'' 400), s)
         | Returns articleData \<Rightarrow>
             (case article_incomplete articleData of
                Throws e \<Rightarrow> (Throws e, s)
              | Returns incomplete \<Rightarrow>
                  if incomplete
                  then (Returns (error_reply ''Invalid article format: missing title or content'' 400), s)
                  else publish_article env i language status tweet articleData s)))"

text \<open>The body of the handler's \<open>try\<close> block.\<close>

definition POST_try :: "'w env \<Rightarrow> string \<Rightarrow> 'w state \<Rightarrow> reply outcome \<times> 'w state" where
  \<open>POST_try env params_id s =
     (let parsed = parseInt env params_id in
      case request_json env (fst s) of
        (body_read, w) \<Rightarrow>
          let s0 = (w, snd s) in
          (case and_then body_read destructure_body of
             Throws e \<Rightarrow> (Throws e, s0)
           | Returns (language, published, status) \<Rightarrow>
               (case parsed of
                  None \<Rightarrow> (Returns (error_reply ''Invalid tweet ID'' 400), s0)
                | Some i \<Rightarrow>
                    if language \<noteq> JStr ''english'' \<and> language \<noteq> JStr ''french''
                    then (Returns (error_reply ''Invalid language. Must be "english" or "french"'' 400), s0)
                    else
                      (case do_getAll env 10000 0 s0 of
                         (Throws e, s1) \<Rightarrow> (Throws e, s1)
                       | (Returns allTweets, s1) \<Rightarrow>
                           (case find (\<lambda>t. row_id t = i) allTweets of
                              None \<Rightarrow> (Returns (error_reply ''Tweet not found'' 404), s1)
                            | Some tweet \<Rightarrow>
                                if \<not> truthy published then unpublish env i (js_string language) s1
                                else publish env i (js_string language) status tweet s1)))))\<close>

text \<open>The handler: the top-level \<open>catch\<close> answers 500 with the error's message.\<close>

definition POST :: "'w env \<Rightarrow> string \<Rightarrow> 'w state \<Rightarrow> reply \<times> 'w state" where
  "POST env params_id s =
     (case POST_try env params_id s of
        (Throws e, s1) \<Rightarrow>
          (NextResponse_json (JObj [(''error'', JStr ''Failed to publish article''), (''message'', JStr e)]) 500, s1)
      | (Returns r, s1) \<Rightarrow> (r, s1))"

section \<open>Reading a trace\<close>

fun is_update :: "event \<Rightarrow> bool" where
  "is_update (UpdatePublished i language published link) = True"
| "is_update e = False"

fun is_post_create :: "event \<Rightarrow> bool" where
  "is_post_create (PostCreate u auth postData r) = True"
| "is_post_create e = False"

text \<open>The calls that leave the application: the image download and the two WordPress calls.\<close>

fun is_outbound :: "event \<Rightarrow> bool" where
  "is_outbound (ImageDownload u r) = True"
| "is_outbound (MediaUpload u auth filename r) = True"
| "is_outbound (PostCreate u auth postData r) = True"
| "is_outbound e = False"

fun is_media_io :: "event \<Rightarrow> bool" where
  "is_media_io (ImageDownload u r) = True"
| "is_media_io (MediaUpload u auth filename r) = True"
| "is_media_io e = False"

text \<open>Neither a store update nor a post creation.\<close>

definition preparatory :: "event \<Rightarrow> bool" where
  "preparatory e = (\<not> is_update e \<and> \<not> is_post_create e)"

text \<open>
  How a run can end once the uploads are over: with no further call, with a post
  creation that was not answered 201, with a created post whose answer could not be
  read, or with a created post followed by the store update.
\<close>

definition publish_tail :: "int \<Rightarrow> string \<Rightarrow> reply outcome \<Rightarrow> event list \<Rightarrow> bool" where
  "publish_tail i language r evs =
     (evs = []
      \<or> (\<exists>u auth d e. evs = [PostCreate u auth d (Throws e)] \<and> r = Throws e)
      \<or> (\<exists>u auth d response. evs = [PostCreate u auth d (Returns response)]
            \<and> http_status response \<noteq> 201 \<and> r = wordpress_error response)
      \<or> (\<exists>u auth d response e. evs = [PostCreate u auth d (Returns response)]
            \<and> http_status response = 201 \<and> r = Throws e)
      \<or> (\<exists>u auth d response link.
            evs = [PostCreate u auth d (Returns response), UpdatePublished i language True link]
            \<and> http_status response = 201))"

text \<open>A trace that grew by preparatory calls and then ended in one of these ways.\<close>

definition publish_run :: "event list \<Rightarrow> event list \<Rightarrow> int \<Rightarrow> string \<Rightarrow> reply outcome \<Rightarrow> bool" where
  "publish_run tr tr' i language r =
     (\<exists>pre tail. tr' = tr @ pre @ tail \<and> list_all preparatory pre \<and> publish_tail i language r tail)"

text \<open>What the post-creation calls of a trace resolved to, in order.\<close>

fun post_responses :: "event list \<Rightarrow> fetch_response outcome list" where
  "post_responses [] = []"
| "post_responses (PostCreate u auth postData r # es) = r # post_responses es"
| "post_responses (e # es) = post_responses es"

text \<open>The urls whose download a trace records, in order.\<close>

fun downloads :: "event list \<Rightarrow> json list" where
  "downloads [] = []"
| "downloads (ImageDownload u r # es) = u # downloads es"
| "downloads (e # es) = downloads es"

text \<open>
  What the uploader resolves to for each url of a list in turn, each call starting in the
  state the previous one left.
\<close>

fun upload_attempts ::
  "'w env \<Rightarrow> json list \<Rightarrow> string \<Rightarrow> string \<Rightarrow> string \<Rightarrow> 'w state \<Rightarrow> uploaded option outcome list" where
  "upload_attempts env [] wpUrl wpUsername wpPassword s = []"
| "upload_attempts env (imageUrl # rest) wpUrl wpUsername wpPassword s =
     (case uploadImageToWordPress env imageUrl wpUrl wpUsername wpPassword s of
        (r, s1) \<Rightarrow> r # upload_attempts env rest wpUrl wpUsername wpPassword s1)"

fun successes :: "uploaded option outcome list \<Rightarrow> uploaded list" where
  "successes [] = []"
| "successes (Returns (Some img) # rs) = img # successes rs"
| "successes (r # rs) = successes rs"

text \<open>
  The markup a submitted post is expected to hold. The figure of one gallery image shows
  the hosted url of the image and its number.
\<close>

definition expected_figure :: "json \<Rightarrow> nat \<Rightarrow> string" where
  \<open>expected_figure hosted n =
     ''<figure style="margin: 0; text-align: center;">\<newline>''
     @ ''          <img src="'' @ js_string hosted @ ''" alt="Article image '' @ string_of_nat n
     @ ''" style="max-width: 100%; height: auto; border-radius: 8px; box-shadow: 0 2px 8px rgba(0,0,0,0.1);" />\<newline>''
     @ ''        </figure>''\<close>

text \<open>One figure per image, in order, numbered from \<open>n\<close>.\<close>

fun expected_figures :: "uploaded list \<Rightarrow> nat \<Rightarrow> string" where
  "expected_figures [] n = []"
| "expected_figures (img # imgs) n = expected_figure (url img) n @ expected_figures imgs (Suc n)"

text \<open>
  The gallery block of the images that follow the featured one: nothing when there is
  none, else one block with their figures, in order, numbered from 1.
\<close>

definition expected_gallery :: "uploaded list \<Rightarrow> string" where
  \<open>expected_gallery others =
     (if others = [] then []
      else ''<div class="article-images" style="margin: 30px 0; display: flex; flex-direction: column; gap: 20px;">''
           @ expected_figures others 1 @ ''</div>'')\<close>

text \<open>
  The content of the post: the article, then the gallery of the images after the first,
  then the attribution line that links to the source tweet.
\<close>

definition expected_content :: "string \<Rightarrow> uploaded list \<Rightarrow> tweet \<Rightarrow> string" where
  \<open>expected_content html others tweet =
     html @ ''\<newline>'' @ expected_gallery others @ ''\<newline><hr>\<newline>''
     @ ''<p><em>Source: <a href="https://twitter.com/'' @ username tweet @ ''/status/'' @ tweet_id tweet
     @ ''" target="_blank">Original Tweet</a></em></p>''\<close>

text \<open>
  The url an entry of the media list carries, in the spec's words: the entry itself when
  it is a string, its \<open>mediaUrl\<close> or else its \<open>url\<close> when it is an object.
\<close>

fun entry_url :: "json \<Rightarrow> json" where
  "entry_url (JStr str) = JStr str"
| "entry_url (JObj kvs) =
     (case map_of kvs ''mediaUrl'' of
        Some m \<Rightarrow> if truthy m then m else (case map_of kvs ''url'' of Some u \<Rightarrow> u | None \<Rightarrow> JUndefined)
      | None \<Rightarrow> (case map_of kvs ''url'' of Some u \<Rightarrow> u | None \<Rightarrow> JUndefined))"
| "entry_url v = JUndefined"

section \<open>A sample installation\<close>

definition sample_article :: json where
  "sample_article = JObj [(''title'', JStr ''Hello''), (''article'', JStr ''Some *text*'')]"

definition sample_media :: string where
  \<open>sample_media = ''["http://img/1.jpg","http://img/2.jpg","http://img/3.jpg"]''\<close>

definition sample_tweet :: tweet where
  "sample_tweet =
     \<lparr>row_id = 42, username = ''alice'', tweet_id = ''1001'',
      article_english = sample_article, article_french = JNull,
      media_urls = Some sample_media\<rparr>"

definition other_tweet :: tweet where
  "other_tweet =
     \<lparr>row_id = 7, username = ''bob'', tweet_id = ''1002'',
      article_english = JNull, article_french = JNull, media_urls = None\<rparr>"

definition sample_parse :: "string \<Rightarrow> json outcome" where
  \<open>sample_parse str =
     (if str = sample_media
      then Returns (JArr [JStr ''http://img/1.jpg'', JStr ''http://img/2.jpg'', JStr ''http://img/3.jpg''])
      else if str = ''["http://img/1.jpg",5]''
      then Returns (JArr [JStr ''http://img/1.jpg'', JNum 5])
      else Throws ''Unexpected token'')\<close>

definition sample_image :: fetch_response where
  "sample_image =
     \<lparr>http_status = 200, content_type = Some ''image/jpeg'',
      body_json = Throws ''Unexpected token'', body_text = Returns ''JFIF'',
      body_arrayBuffer = Returns ''JFIF''\<rparr>"

definition sample_media_created :: "string \<Rightarrow> fetch_response" where
  "sample_media_created filename =
     \<lparr>http_status = 201, content_type = Some ''application/json'',
      body_json = Returns (JObj [(''id'', JNum (if filename = ''1.jpg'' then 11 else 13)),
                                 (''source_url'', JStr (''https://blog.example/media/'' @ filename))]),
      body_text = Returns [], body_arrayBuffer = Returns []\<rparr>"

definition sample_media_refused :: fetch_response where
  "sample_media_refused =
     \<lparr>http_status = 500, content_type = Some ''text/html'',
      body_json = Throws ''Unexpected token'', body_text = Returns ''Internal Server Error'',
      body_arrayBuffer = Returns []\<rparr>"

definition sample_post_created :: fetch_response where
  "sample_post_created =
     \<lparr>http_status = 201, content_type = Some ''application/json'',
      body_json = Returns (JObj [(''id'', JNum 7), (''link'', JStr ''https://blog.example/?p=7'')]),
      body_text = Returns [], body_arrayBuffer = Returns []\<rparr>"

definition sample_bad_gateway :: fetch_response where
  "sample_bad_gateway =
     \<lparr>http_status = 502, content_type = Some ''text/html'',
      body_json = Throws ''Unexpected token'', body_text = Returns ''<html>502 Bad Gateway</html>'',
      body_arrayBuffer = Returns []\<rparr>"

definition sample_forbidden :: fetch_response where
  "sample_forbidden =
     \<lparr>http_status = 403, content_type = Some ''application/json'',
      body_json = Returns (JObj [(''code'', JStr ''rest_cannot_create'')]),
      body_text = Returns [], body_arrayBuffer = Returns []\<rparr>"

definition sample_settings :: "string \<Rightarrow> string option" where
  "sample_settings k =
     (if k = ''wordpressEnglishUrl'' then Some ''https://blog.example/''
      else if k = ''wordpressEnglishUsername'' then Some ''admin''
      else if k = ''wordpressEnglishPassword'' then Some ''secret''
      else None)"

text \<open>
  The world of the sample is the list of stored rows. The body asks to publish tweet 42 in
  English; of the three uploads the second is refused.
\<close>

definition sample_env :: "tweet list env" where
  "sample_env =
     \<lparr>parseInt = (\<lambda>str. if str = ''42'' then Some 42 else None),
      JSON_parse = sample_parse,
      marked = (\<lambda>v. case v of JStr str \<Rightarrow> Returns (''<p>'' @ str @ ''</p>'')
                               | _ \<Rightarrow> Throws ''marked(): string expected''),
      base64 = (\<lambda>str. str),
      URL_pathname = (\<lambda>v. case v of JStr str \<Rightarrow> Returns (drop 10 str) | _ \<Rightarrow> Throws ''Invalid URL''),
      Date_now = (\<lambda>w. 0),
      request_json = (\<lambda>w. (Returns (JObj [(''language'', JStr ''english''), (''published'', JBool True)]), w)),
      tweets_getCount = store_getCount,
      tweets_deleteAll = store_deleteAll,
      tweets_getAll = store_getAll,
      tweets_updatePublished = (\<lambda>i language published link w. (Returns True, w)),
      settings_get = (\<lambda>k w. (Returns (sample_settings k), w)),
      fetch_image = (\<lambda>u w. (Returns sample_image, w)),
      fetch_post_media = (\<lambda>u auth filename contentType imgBuffer w.
         (Returns (if filename = ''2.jpg'' then sample_media_refused else sample_media_created filename), w)),
      fetch_post_json = (\<lambda>u auth postData w. (Returns sample_post_created, w))\<rparr>"

text \<open>The sample with a store whose \<open>deleteAll\<close> rejects.\<close>

definition locked_env :: "tweet list env" where
  "locked_env = sample_env\<lparr>tweets_deleteAll := (\<lambda>w. (Throws ''database is locked'', w))\<rparr>"

text \<open>The sample with a WordPress that does not create the post: it answers 403 with a JSON
  error body, 502 with an HTML body, or 204.\<close>

definition forbidden_env :: "tweet list env" where
  "forbidden_env = sample_env\<lparr>fetch_post_json := (\<lambda>u auth postData w. (Returns sample_forbidden, w))\<rparr>"

definition sample_no_content :: fetch_response where
  "sample_no_content =
     \<lparr>http_status = 204, content_type = None,
      body_json = Returns (JObj []), body_text = Returns [],
      body_arrayBuffer = Returns []\<rparr>"

definition no_content_env :: "tweet list env" where
  "no_content_env = sample_env\<lparr>fetch_post_json := (\<lambda>u auth postData w. (Returns sample_no_content, w))\<rparr>"

definition gateway_env :: "tweet list env" where
  "gateway_env = sample_env\<lparr>fetch_post_json := (\<lambda>u auth postData w. (Returns sample_bad_gateway, w))\<rparr>"

text \<open>The sample with other request bodies: \<open>published: false\<close>, no \<open>published\<close> at all, and a
  body that is not JSON.\<close>

definition unpublish_env :: "tweet list env" where
  "unpublish_env = sample_env\<lparr>request_json :=
      (\<lambda>w. (Returns (JObj [(''language'', JStr ''english''), (''published'', JBool False)]), w))\<rparr>"

definition omitting_env :: "tweet list env" where
  "omitting_env = sample_env\<lparr>request_json := (\<lambda>w. (Returns (JObj [(''language'', JStr ''english'')]), w))\<rparr>"

definition unparsable_env :: "tweet list env" where
  "unparsable_env = sample_env\<lparr>request_json := (\<lambda>w. (Throws ''Unexpected end of JSON input'', w))\<rparr>"

text \<open>The sample with no route to the image host.\<close>

definition offline_env :: "tweet list env" where
  "offline_env = sample_env\<lparr>fetch_image := (\<lambda>u w. (Throws ''fetch failed'', w))\<rparr>"

text \<open>A tweet whose media list mixes a url with an entry that carries none, and a tweet whose
  English article is not JSON.\<close>

definition mixed_media :: string where
  \<open>mixed_media = ''["http://img/1.jpg",5]''\<close>

definition mixed_tweet :: tweet where
  "mixed_tweet = sample_tweet\<lparr>media_urls := Some mixed_media\<rparr>"

definition broken_tweet :: tweet where
  "broken_tweet = sample_tweet\<lparr>article_english := JStr ''{oops''\<rparr>"

text \<open>The sample with a media endpoint that answers 201 without any url of the upload.\<close>

definition sample_media_without_url :: fetch_response where
  "sample_media_without_url =
     \<lparr>http_status = 201, content_type = Some ''application/json'',
      body_json = Returns (JObj [(''id'', JNum 11)]),
      body_text = Returns [], body_arrayBuffer = Returns []\<rparr>"

definition urlless_env :: "tweet list env" where
  "urlless_env = sample_env\<lparr>fetch_post_media :=
      (\<lambda>u auth filename contentType imgBuffer w. (Returns sample_media_without_url, w))\<rparr>"


section \<open>How a run extends the trace\<close>

lemmas do_defs = do_getCount_def do_deleteAll_def do_getAll_def do_updatePublished_def
  do_settings_get_def do_fetch_image_def do_fetch_post_media_def do_fetch_post_json_def

lemma uploader_try_trace:
  "uploadImage_try env u wp un pw (w, tr) = (r, (w', tr')) \<Longrightarrow>
     \<exists>evs. tr' = tr @ evs \<and> list_all is_media_io evs \<and> downloads evs = [u]"
  unfolding uploadImage_try_def do_defs
  by (auto split: prod.splits outcome.splits if_splits simp: Let_def)

lemma uploader_returns:
  "\<exists>r w' evs. uploadImageToWordPress env u wp un pw (w, tr) = (Returns r, (w', tr @ evs))
      \<and> list_all is_media_io evs \<and> downloads evs = [u]"
proof -
  obtain r w' tr' where t: "uploadImage_try env u wp un pw (w, tr) = (r, (w', tr'))"
    by (metis prod.exhaust)
  from uploader_try_trace [OF t] obtain evs where
    e: "tr' = tr @ evs" "list_all is_media_io evs" "downloads evs = [u]" by blast
  show ?thesis using t e by (cases r) (auto simp: uploadImageToWordPress_def)
qed

lemma downloads_append: "downloads (xs @ ys) = downloads xs @ downloads ys"
  by (induction xs rule: downloads.induct) auto

lemma upload_images_run:
  "\<exists>w' evs. upload_images env urls wp un pw acc (w, tr)
        = (Returns (acc @ successes (upload_attempts env urls wp un pw (w, tr))), (w', tr @ evs))
      \<and> list_all is_media_io evs \<and> downloads evs = urls"
proof (induction urls arbitrary: acc w tr)
  case Nil
  show ?case by simp
next
  case (Cons u urls)
  obtain r w1 evs1 where
    u: "uploadImageToWordPress env u wp un pw (w, tr) = (Returns r, (w1, tr @ evs1))"
    and m: "list_all is_media_io evs1" and d: "downloads evs1 = [u]"
    using uploader_returns [of env u wp un pw w tr] by blast
  obtain w2 evs2 where
    r: "upload_images env urls wp un pw (case r of None \<Rightarrow> acc | Some x \<Rightarrow> acc @ [x]) (w1, tr @ evs1)
        = (Returns ((case r of None \<Rightarrow> acc | Some x \<Rightarrow> acc @ [x])
                    @ successes (upload_attempts env urls wp un pw (w1, tr @ evs1))), (w2, (tr @ evs1) @ evs2))"
    and m2: "list_all is_media_io evs2" and d2: "downloads evs2 = urls"
    using Cons.IH [of "(case r of None \<Rightarrow> acc | Some x \<Rightarrow> acc @ [x])" w1 "tr @ evs1"] by blast
  show ?case
    apply (rule exI [of _ w2], rule exI [of _ "evs1 @ evs2"])
    using u r m m2 d d2 by (cases r) (simp_all add: downloads_append)
qed


lemma record_published_shape:
  "record_published env i l response (w, tr) = (r, (w', tr')) \<Longrightarrow>
     (tr' = tr \<and> (\<exists>e. r = Throws e)) \<or> (\<exists>link. tr' = tr @ [UpdatePublished i l True link])"
  unfolding record_published_def do_defs
  by (auto split: prod.splits outcome.splits if_splits)

lemma submit_post_shape:
  assumes "submit_post env i l st t title md urls wp un pw (w, tr) = (r, (w', tr'))"
  shows "\<exists>pre tail. tr' = tr @ pre @ tail \<and> list_all is_media_io pre \<and> downloads pre = urls
            \<and> publish_tail i l r tail"
proof -
  obtain w1 pre where
    up: "upload_images env urls wp un pw [] (w, tr)
           = (Returns ([] @ successes (upload_attempts env urls wp un pw (w, tr))), (w1, tr @ pre))"
    and m: "list_all is_media_io pre" and d: "downloads pre = urls"
    using upload_images_run [of env urls wp un pw "[]" w tr] by blast
  have "\<exists>tail. tr' = (tr @ pre) @ tail \<and> publish_tail i l r tail"
    using assms up
    unfolding submit_post_def do_defs publish_tail_def
    by (auto simp: Let_def split: prod.splits outcome.splits if_splits
             dest!: record_published_shape)
  then show ?thesis using m d by auto
qed


lemma media_io_preparatory: "list_all is_media_io evs \<Longrightarrow> list_all preparatory evs"
  by (induction evs rule: downloads.induct) (auto simp: preparatory_def)

lemma read_credentials_trace:
  "read_credentials env l (w, tr) = (r, (w', tr')) \<Longrightarrow>
     \<exists>evs. tr' = tr @ evs \<and> list_all preparatory evs \<and> list_all (\<lambda>e. \<not> is_outbound e) evs"
  unfolding read_credentials_def do_defs
  by (auto simp: preparatory_def split: prod.splits outcome.splits if_splits)

lemma publish_tail_Nil: "publish_tail i l r []"
  by (simp add: publish_tail_def)

lemma publish_run_refl: "publish_run tr tr i l r"
  unfolding publish_run_def by (intro exI [of _ "[]"]) (simp add: publish_tail_Nil)

lemma publish_run_prefix:
  "list_all preparatory evs \<Longrightarrow> publish_run (tr @ evs) tr' i l r \<Longrightarrow> publish_run tr tr' i l r"
  unfolding publish_run_def
  by (elim exE conjE, rule_tac x = "evs @ pre" in exI, rule_tac x = tail in exI) simp

lemma submit_post_run:
  "submit_post env i l st t title md urls wp un pw (w, tr) = (r, (w', tr')) \<Longrightarrow> publish_run tr tr' i l r"
  unfolding publish_run_def
  by (drule submit_post_shape) (use media_io_preparatory in blast)

lemma publish_article_run:
  assumes "publish_article env i l st t a (w, tr) = (r, (w', tr'))"
  shows "publish_run tr tr' i l r"
proof -
  obtain c w1 tr1 where c: "read_credentials env l (w, tr) = (c, (w1, tr1))"
    by (metis prod.exhaust)
  from read_credentials_trace [OF c] obtain evs where
    e: "tr1 = tr @ evs" "list_all preparatory evs" by blast
  have "publish_run tr1 tr' i l r"
    using assms c unfolding publish_article_def
    by (auto simp: Let_def publish_run_refl split: prod.splits outcome.splits if_splits
             dest: submit_post_run)
  then show ?thesis using e publish_run_prefix by blast
qed

lemma publish_branch_run:
  assumes "publish env i l st t (w, tr) = (r, (w', tr'))"
  shows "publish_run tr tr' i l r"
  using assms unfolding publish_def
  by (auto simp: Let_def publish_run_refl split: prod.splits outcome.splits if_splits
           dest: publish_article_run)


lemma POST_try_unreadable:
  "request_json env w = (b, w0) \<Longrightarrow> and_then b destructure_body = Throws e \<Longrightarrow>
     POST_try env pid (w, tr) = (Throws e, (w0, tr))"
  by (simp add: POST_try_def)

lemma POST_try_invalid_id:
  "request_json env w = (b, w0) \<Longrightarrow> and_then b destructure_body = Returns f \<Longrightarrow>
     parseInt env pid = None \<Longrightarrow>
     POST_try env pid (w, tr) = (Returns (error_reply ''Invalid tweet ID'' 400), (w0, tr))"
  by (cases f) (simp add: POST_try_def)

lemma POST_try_invalid_language:
  \<open>request_json env w = (b, w0) \<Longrightarrow> and_then b destructure_body = Returns (language, published, status) \<Longrightarrow>
     parseInt env pid = Some i \<Longrightarrow> language \<noteq> JStr ''english'' \<Longrightarrow> language \<noteq> JStr ''french'' \<Longrightarrow>
     POST_try env pid (w, tr)
       = (Returns (error_reply ''Invalid language. Must be "english" or "french"'' 400), (w0, tr))\<close>
  by (simp add: POST_try_def)

lemma POST_try_store_error:
  "request_json env w = (b, w0) \<Longrightarrow> and_then b destructure_body = Returns (language, published, status) \<Longrightarrow>
     parseInt env pid = Some i \<Longrightarrow> language = JStr ''english'' \<or> language = JStr ''french'' \<Longrightarrow>
     tweets_getAll env 10000 0 w0 = (Throws e, w1) \<Longrightarrow>
     POST_try env pid (w, tr) = (Throws e, (w1, tr @ [GetAll 10000 0]))"
  by (auto simp add: POST_try_def do_getAll_def)

lemma POST_try_not_found:
  "request_json env w = (b, w0) \<Longrightarrow> and_then b destructure_body = Returns (language, published, status) \<Longrightarrow>
     parseInt env pid = Some i \<Longrightarrow> language = JStr ''english'' \<or> language = JStr ''french'' \<Longrightarrow>
     tweets_getAll env 10000 0 w0 = (Returns rows, w1) \<Longrightarrow>
     find (\<lambda>t. row_id t = i) rows = None \<Longrightarrow>
     POST_try env pid (w, tr) = (Returns (error_reply ''Tweet not found'' 404), (w1, tr @ [GetAll 10000 0]))"
  by (auto simp add: POST_try_def do_getAll_def)

lemma POST_try_found:
  "request_json env w = (b, w0) \<Longrightarrow> and_then b destructure_body = Returns (language, published, status) \<Longrightarrow>
     parseInt env pid = Some i \<Longrightarrow> language = JStr ''english'' \<or> language = JStr ''french'' \<Longrightarrow>
     tweets_getAll env 10000 0 w0 = (Returns rows, w1) \<Longrightarrow>
     find (\<lambda>t. row_id t = i) rows = Some t \<Longrightarrow>
     POST_try env pid (w, tr)
       = (if \<not> truthy published then unpublish env i (js_string language) (w1, tr @ [GetAll 10000 0])
          else publish env i (js_string language) status t (w1, tr @ [GetAll 10000 0]))"
  by (auto simp add: POST_try_def do_getAll_def)


lemma unpublish_trace:
  "unpublish env i l (w, tr) = (r, (w', tr')) \<Longrightarrow> tr' = tr @ [UpdatePublished i l False JNull]"
  unfolding unpublish_def do_defs
  by (auto split: prod.splits outcome.splits if_splits)

lemma destructure_published:
  assumes "and_then b destructure_body = Returns (language, published, status)"
  shows "\<exists>body. b = Returns body \<and> get_prop body ''published'' = Returns published"
proof (cases b)
  case (Throws e)
  with assms show ?thesis by simp
next
  case (Returns body)
  with assms have "destructure_body body = Returns (language, published, status)" by simp
  then have "get_prop body ''published'' = Returns published"
    unfolding destructure_body_def
    by (cases "get_prop body ''language''"; cases "get_prop body ''published''";
        cases "get_prop body ''status''"; simp)
  with Returns show ?thesis by simp
qed

lemma POST_try_run:
  assumes run: "POST_try env pid (w, tr) = (r, (w', tr'))"
  shows "(\<exists>i l. publish_run tr tr' i l r)
         \<or> (\<exists>i l body w0 p. tr' = tr @ [GetAll 10000 0, UpdatePublished i l False JNull]
               \<and> request_json env w = (Returns body, w0)
               \<and> get_prop body ''published'' = Returns p \<and> \<not> truthy p)"
proof -
  obtain b w0 where b: "request_json env w = (b, w0)" by (metis prod.exhaust)
  have pre: "publish_run tr (tr @ [GetAll 10000 0]) 0 [] r"
    by (rule publish_run_prefix [of "[GetAll 10000 0]"]) (simp_all add: preparatory_def publish_run_refl)
  have quiet: ?thesis if "tr' = tr \<or> tr' = tr @ [GetAll 10000 0]"
  proof -
    from that pre publish_run_refl [of tr 0 "[]" r] have "publish_run tr tr' 0 [] r" by auto
    then show ?thesis by (intro disjI1 exI)
  qed
  show ?thesis
  proof (cases "and_then b destructure_body")
    case (Throws e)
    from POST_try_unreadable [OF b Throws, of pid tr] run have "tr' = tr" by simp
    then show ?thesis using quiet by simp
  next
    case (Returns f)
    obtain language published status where f: "f = (language, published, status)" by (cases f)
    note d = Returns [unfolded f]
    show ?thesis
    proof (cases "parseInt env pid")
      case None
      from POST_try_invalid_id [OF b Returns None, of tr] run have "tr' = tr" by simp
      then show ?thesis using quiet by simp
    next
      case (Some i)
      show ?thesis
      proof (cases "language = JStr ''english'' \<or> language = JStr ''french''")
        case False
        then have "language \<noteq> JStr ''english''" "language \<noteq> JStr ''french''" by auto
        from POST_try_invalid_language [OF b d Some this, of tr] run have "tr' = tr" by simp
        then show ?thesis using quiet by simp
      next
        case True
        obtain g w1 where g: "tweets_getAll env 10000 0 w0 = (g, w1)" by (metis prod.exhaust)
        show ?thesis
        proof (cases g)
          case (Throws e)
          from POST_try_store_error [OF b d Some True g [unfolded Throws], of tr] run
          have "tr' = tr @ [GetAll 10000 0]" by simp
          then show ?thesis using quiet by simp
        next
          case (Returns rows)
          note g' = g [unfolded Returns]
          show ?thesis
          proof (cases "find (\<lambda>t. row_id t = i) rows")
            case None
            from POST_try_not_found [OF b d Some True g' None, of tr] run
            have "tr' = tr @ [GetAll 10000 0]" by simp
            then show ?thesis using quiet by simp
          next
            case (Some t)
            note eq = POST_try_found [OF b d \<open>parseInt env pid = Some i\<close> True g' Some, of tr]
            show ?thesis
            proof (cases "truthy published")
              case True
              with eq run have "publish env i (js_string language) status t (w1, tr @ [GetAll 10000 0]) = (r, (w', tr'))"
                by simp
              from publish_branch_run [OF this]
              have "publish_run (tr @ [GetAll 10000 0]) tr' i (js_string language) r" .
              then have "publish_run tr tr' i (js_string language) r"
                by (rule publish_run_prefix [rotated]) (simp add: preparatory_def)
              then show ?thesis by (intro disjI1 exI)
            next
              case False
              with eq run have "unpublish env i (js_string language) (w1, tr @ [GetAll 10000 0]) = (r, (w', tr'))"
                by simp
              from unpublish_trace [OF this]
              have t: "tr' = tr @ [GetAll 10000 0, UpdatePublished i (js_string language) False JNull]" by simp
              from destructure_published [OF d] obtain body where
                "b = Returns body" "get_prop body ''published'' = Returns published" by blast
              with b t False show ?thesis
                by (intro disjI2 exI [of _ i] exI [of _ "js_string language"] exI [of _ body]
                          exI [of _ w0] exI [of _ published]) simp
            qed
          qed
        qed
      qed
    qed
  qed
qed

lemma POST_run:
  assumes "POST env pid (w, tr) = (answer, (w', tr'))"
  shows "\<exists>r. POST_try env pid (w, tr) = (r, (w', tr'))
           \<and> answer = (case r of
                 Throws e \<Rightarrow> NextResponse_json (JObj [(''error'', JStr ''Failed to publish article''), (''message'', JStr e)]) 500
               | Returns x \<Rightarrow> x)"
  using assms unfolding POST_def
  by (auto split: prod.splits outcome.splits)

lemma preparatory_not_update: "list_all preparatory pre \<Longrightarrow> e \<in> set pre \<Longrightarrow> \<not> is_update e \<and> \<not> is_post_create e"
  by (auto simp: list_all_iff preparatory_def)

lemma publish_tail_update:
  assumes "publish_tail i l r tail" and "UpdatePublished i' l' True link \<in> set tail"
  shows "\<exists>u auth d response. tail = [PostCreate u auth d (Returns response), UpdatePublished i' l' True link]
           \<and> http_status response = 201"
  using assms unfolding publish_tail_def by auto

lemma publish_tail_not_created:
  assumes "publish_tail i l r tail"
    and "\<forall>u auth d response. PostCreate u auth d (Returns response) \<in> set tail \<longrightarrow> http_status response \<noteq> 201"
  shows "list_all (\<lambda>e. \<not> is_update e) tail"
  using assms unfolding publish_tail_def by auto

lemma unpublish_request_run:
  assumes "request_json env w = (Returns body, w0)"
    and "destructure_body body = Returns (JStr language, published, status)"
    and "language = ''english'' \<or> language = ''french''"
    and "\<not> truthy published"
    and "parseInt env params_id = Some i"
    and "tweets_getAll env 10000 0 w0 = (Returns rows, w1)"
    and "find (\<lambda>t. row_id t = i) rows = Some tweet"
    and "tweets_updatePublished env i language False JNull w1 = (u, w2)"
  shows "POST env params_id (w, tr)
          = ((case u of
                Throws e \<Rightarrow> NextResponse_json (JObj [(''error'', JStr ''Failed to publish article''), (''message'', JStr e)]) 500
              | Returns success \<Rightarrow>
                  if success then NextResponse_json (JObj [(''success'', JBool True)]) 200
                  else NextResponse_json (JObj [(''error'', JStr ''Failed to update tweet status'')]) 500),
             (w2, tr @ [GetAll 10000 0, UpdatePublished i language False JNull]))"
proof -
  have d: "and_then (Returns body) destructure_body = Returns (JStr language, published, status)"
    using assms(2) by simp
  have l: "JStr language = JStr ''english'' \<or> JStr language = JStr ''french''"
    using assms(3) by simp
  from POST_try_found [OF assms(1) d assms(5) l assms(6) assms(7), of tr] assms(4)
  have "POST_try env params_id (w, tr) = unpublish env i language (w1, tr @ [GetAll 10000 0])"
    by simp
  then show ?thesis
    using assms(8)
    by (cases u) (simp_all add: POST_def unpublish_def do_updatePublished_def error_reply_def)
qed

lemma get_prop_defined: "v \<noteq> JNull \<Longrightarrow> v \<noteq> JUndefined \<Longrightarrow> \<exists>x. get_prop v k = Returns x"
  by (cases v) simp_all

lemma record_published_answer:
  "record_published env i l response s = (Returns x, s') \<Longrightarrow>
     reply_body x \<noteq> JObj [(''error'', JStr ''Tweet not found'')]"
  unfolding record_published_def do_defs error_reply_def NextResponse_json_def
  by (auto split: prod.splits outcome.splits if_splits)

lemma wordpress_error_answer:
  "wordpress_error response = Returns x \<Longrightarrow> reply_body x \<noteq> JObj [(''error'', JStr ''Tweet not found'')]"
  unfolding wordpress_error_def NextResponse_json_checked_def NextResponse_json_def read_text_def
  by (cases "body_json response") (auto split: if_splits)

lemma submit_post_answer:
  assumes "submit_post env i l st t title md urls wp un pw (w, tr) = (Returns x, s')"
  shows "reply_body x \<noteq> JObj [(''error'', JStr ''Tweet not found'')]"
proof -
  obtain w1 pre where
    up: "upload_images env urls wp un pw [] (w, tr)
           = (Returns ([] @ successes (upload_attempts env urls wp un pw (w, tr))), (w1, tr @ pre))"
    using upload_images_run [of env urls wp un pw "[]" w tr] by blast
  show ?thesis
    using assms up unfolding submit_post_def
    by (auto simp: Let_def split: prod.splits outcome.splits if_splits
             dest: record_published_answer wordpress_error_answer)
qed

lemma publish_answer:
  assumes "publish env i l st t (w, tr) = (Returns x, s')"
  shows "reply_body x \<noteq> JObj [(''error'', JStr ''Tweet not found'')]"
  using assms unfolding publish_def publish_article_def error_reply_def NextResponse_json_def
  by (auto simp: Let_def split: prod.splits outcome.splits if_splits dest: submit_post_answer)

lemma unpublish_answer:
  assumes "unpublish env i l s = (Returns x, s')"
  shows "reply_body x \<noteq> JObj [(''error'', JStr ''Tweet not found'')]"
  using assms unfolding unpublish_def error_reply_def NextResponse_json_def
  by (auto split: prod.splits outcome.splits if_splits)

lemma read_media_Some:
  assumes "read_media mediaData = Returns (Some img)"
  shows "get_prop mediaData ''id'' = Returns (mediaId img) \<and> truthy (mediaId img)
         \<and> uploaded_url mediaData = Returns (url img) \<and> truthy (url img)"
  using assms unfolding read_media_def
  by (cases "uploaded_url mediaData"; cases "get_prop mediaData ''id''") (auto split: if_splits)

lemma and_then_Returns: "and_then m f = Returns y \<Longrightarrow> \<exists>x. m = Returns x \<and> f x = Returns y"
  by (cases m) simp_all

lemma uploader_try_Some:
  assumes "uploadImage_try env imageUrl wpUrl wpUsername wpPassword (w, tr) = (Returns (Some img), (w', tr'))"
  shows "\<exists>download upload u auth filename mediaData.
           tr' = tr @ [ImageDownload imageUrl (Returns download), MediaUpload u auth filename (Returns upload)]
           \<and> ok download \<and> http_status upload = 201 \<and> body_json upload = Returns mediaData
           \<and> get_prop mediaData ''id'' = Returns (mediaId img) \<and> truthy (mediaId img) \<and> truthy (url img)"
  using assms unfolding uploadImage_try_def do_defs
  by (auto simp: Let_def split: prod.splits outcome.splits if_splits
           dest!: and_then_Returns dest: read_media_Some)

lemma figure_html_expected: "figure_html u i = expected_figure u i"
  by (simp add: figure_html_def expected_figure_def)

lemma gallery_from:
  "concat (map (\<lambda>i. figure_html (url ((pre @ xs) ! i)) i) [length pre ..< length pre + length xs])
     = expected_figures xs (length pre)"
proof (induction xs arbitrary: pre)
  case Nil
  show ?case by simp
next
  case (Cons x xs)
  have "[length pre ..< length pre + length (x # xs)]
          = length pre # [length (pre @ [x]) ..< length (pre @ [x]) + length xs]"
    using upt_conv_Cons [of "length pre" "length pre + Suc (length xs)"] by simp
  moreover have "(pre @ x # xs) ! length pre = x" by simp
  moreover have "concat (map (\<lambda>i. figure_html (url (((pre @ [x]) @ xs) ! i)) i)
                    [length (pre @ [x]) ..< length (pre @ [x]) + length xs])
                   = expected_figures xs (length (pre @ [x]))"
    by (rule Cons.IH)
  ultimately show ?case by (simp add: figure_html_expected)
qed

lemma images_html_gallery: "images_html uploadedImages = expected_gallery (tl uploadedImages)"
proof (cases uploadedImages)
  case Nil
  then show ?thesis by (simp add: images_html_def expected_gallery_def)
next
  case (Cons first others)
  then show ?thesis
    using gallery_from [of "[first]" others]
    by (simp add: images_html_def expected_gallery_def gallery_open_def)
qed

lemma full_content_expected:
  "full_content html (images_html uploadedImages) tweet = expected_content html (tl uploadedImages) tweet"
  by (simp add: full_content_def expected_content_def images_html_gallery)

lemma upload_attempts_truthy:
  "Returns (Some img) \<in> set (upload_attempts env urls wp un pw (w, tr)) \<Longrightarrow> truthy (mediaId img)"
proof (induction urls arbitrary: w tr)
  case Nil
  then show ?case by simp
next
  case (Cons u urls)
  obtain r w1 tr1 where t: "uploadImage_try env u wp un pw (w, tr) = (r, (w1, tr1))"
    by (metis prod.exhaust)
  show ?case
  proof (cases r)
    case (Throws e)
    with t Cons show ?thesis by (auto simp: uploadImageToWordPress_def)
  next
    case (Returns x)
    with t Cons uploader_try_Some [of env u wp un pw w tr img w1 tr1]
    show ?thesis by (auto simp: uploadImageToWordPress_def)
  qed
qed

lemma successes_member: "img \<in> set (successes rs) \<Longrightarrow> Returns (Some img) \<in> set rs"
  by (induction rs rule: successes.induct) auto

lemma submit_post_payload:
  assumes run: "submit_post env i l st t title md urls wp un pw (w, tr) = (r, (w', tr @ evs))"
    and ev: "PostCreate u auth d x \<in> set evs"
  shows "\<exists>html. marked env md = Returns html
           \<and> d = post_data title
                   (full_content html (images_html (successes (upload_attempts env urls wp un pw (w, tr)))) t)
                   st (featured_media_id (successes (upload_attempts env urls wp un pw (w, tr))))"
proof -
  obtain w1 pre where
    up: "upload_images env urls wp un pw [] (w, tr)
           = (Returns ([] @ successes (upload_attempts env urls wp un pw (w, tr))), (w1, tr @ pre))"
    and m: "list_all is_media_io pre"
    using upload_images_run [of env urls wp un pw "[]" w tr] by blast
  from m have no: "PostCreate u auth d x \<notin> set pre"
    by (auto simp: list_all_iff)
  show ?thesis
    using run up ev no unfolding submit_post_def do_defs
    by (auto simp: Let_def split: prod.splits outcome.splits if_splits
             dest!: record_published_shape)
qed


lemma media_item_url_entry:
  assumes "item \<noteq> JNull" and "item \<noteq> JUndefined"
  shows "\<exists>u. media_item_url item = Returns u \<and> truthy u = truthy (entry_url item)
             \<and> (truthy u \<longrightarrow> u = entry_url item)"
  using assms
  by (cases item) (auto simp: media_item_url_def js_or_def split: option.splits)

lemma collect_media_filter:
  "JNull \<notin> set items \<Longrightarrow> JUndefined \<notin> set items \<Longrightarrow>
     collect_media items acc = acc @ filter truthy (map entry_url items)"
proof (induction items arbitrary: acc)
  case Nil
  show ?case by simp
next
  case (Cons item items)
  from Cons.prems have "item \<noteq> JNull" "item \<noteq> JUndefined" by auto
  from media_item_url_entry [OF this] obtain u where
    u: "media_item_url item = Returns u" "truthy u = truthy (entry_url item)"
       "truthy u \<longrightarrow> u = entry_url item" by blast
  from Cons.prems have "JNull \<notin> set items" "JUndefined \<notin> set items" by auto
  from Cons.IH [OF this] u show ?case by auto
qed

lemma submit_post_same_source:
  "username t = username t' \<Longrightarrow> tweet_id t = tweet_id t' \<Longrightarrow>
     submit_post env i l st t title md urls wp un pw s = submit_post env i l st t' title md urls wp un pw s"
  by (simp add: submit_post_def full_content_def Let_def split: prod.splits outcome.splits)

lemma publish_same_media:
  assumes "decode_media env m = decode_media env m'"
  shows "publish env i l st (t\<lparr>media_urls := m\<rparr>) s = publish env i l st (t\<lparr>media_urls := m'\<rparr>) s"
proof -
  have eq: "publish_article env i l' st (t\<lparr>media_urls := m\<rparr>) a s
          = publish_article env i l' st (t\<lparr>media_urls := m'\<rparr>) a s" for a l'
    using assms
    by (simp add: publish_article_def Let_def
                  submit_post_same_source [of "t\<lparr>media_urls := m\<rparr>" "t\<lparr>media_urls := m'\<rparr>"]
             split: prod.splits outcome.splits)
  show ?thesis by (simp add: publish_def Let_def eq split: prod.splits outcome.splits)
qed

lemma uploaded_url_field:
  assumes "uploaded_url mediaData = Returns v" and "truthy v"
  shows "get_prop mediaData ''source_url'' = Returns v
         \<or> (\<exists>guid. get_prop mediaData ''guid'' = Returns guid \<and> get_prop guid ''rendered'' = Returns v)
         \<or> get_prop mediaData ''link'' = Returns v"
proof (cases "get_prop mediaData ''source_url''")
  case (Throws e)
  with assms show ?thesis by (simp add: uploaded_url_def)
next
  case s: (Returns source_url)
  show ?thesis
  proof (cases "truthy source_url")
    case True
    with s assms show ?thesis by (simp add: uploaded_url_def)
  next
    case False
    show ?thesis
    proof (cases "get_prop mediaData ''guid''")
      case (Throws e)
      with s False assms show ?thesis by (simp add: uploaded_url_def)
    next
      case g: (Returns guid)
      show ?thesis
      proof (cases "guid = JNull \<or> guid = JUndefined")
        case True
        with s False g assms show ?thesis by (auto simp: uploaded_url_def)
      next
        case nn: False
        show ?thesis
        proof (cases "get_prop guid ''rendered''")
          case (Throws e)
          with s False g nn assms show ?thesis by (simp add: uploaded_url_def)
        next
          case r: (Returns rendered)
          with s False g nn assms show ?thesis
            by (cases "truthy rendered") (auto simp: uploaded_url_def)
        qed
      qed
    qed
  qed
qed

lemma uploader_Some:
  assumes "fst (uploadImageToWordPress env imageUrl wpUrl wpUsername wpPassword (w, tr)) = Returns (Some img)"
  shows "\<exists>download upload u auth filename mediaData.
            snd (snd (uploadImageToWordPress env imageUrl wpUrl wpUsername wpPassword (w, tr)))
              = tr @ [ImageDownload imageUrl (Returns download), MediaUpload u auth filename (Returns upload)]
            \<and> ok download \<and> http_status upload = 201 \<and> body_json upload = Returns mediaData
            \<and> get_prop mediaData ''id'' = Returns (mediaId img)
            \<and> truthy (mediaId img) \<and> truthy (url img)
            \<and> (get_prop mediaData ''source_url'' = Returns (url img)
                \<or> (\<exists>guid. get_prop mediaData ''guid'' = Returns guid
                       \<and> get_prop guid ''rendered'' = Returns (url img))
                \<or> get_prop mediaData ''link'' = Returns (url img))"
proof -
  obtain r w' tr' where t: "uploadImage_try env imageUrl wpUrl wpUsername wpPassword (w, tr) = (r, (w', tr'))"
    by (metis prod.exhaust)
  with assms have r: "r = Returns (Some img)"
    by (cases r) (simp_all add: uploadImageToWordPress_def)
  have "\<exists>download upload u auth filename mediaData.
           tr' = tr @ [ImageDownload imageUrl (Returns download), MediaUpload u auth filename (Returns upload)]
           \<and> ok download \<and> http_status upload = 201 \<and> body_json upload = Returns mediaData
           \<and> read_media mediaData = Returns (Some img)"
    using t [unfolded r] unfolding uploadImage_try_def do_defs
    by (auto simp: Let_def split: prod.splits outcome.splits if_splits dest!: and_then_Returns)
  then obtain download upload u auth filename mediaData where
    tr': "tr' = tr @ [ImageDownload imageUrl (Returns download), MediaUpload u auth filename (Returns upload)]"
    and f: "ok download" "http_status upload = 201" "body_json upload = Returns mediaData"
    and m: "read_media mediaData = Returns (Some img)" by blast
  from read_media_Some [OF m] have
    i: "get_prop mediaData ''id'' = Returns (mediaId img)" "truthy (mediaId img)"
       "uploaded_url mediaData = Returns (url img)" "truthy (url img)" by simp_all
  from uploaded_url_field [OF i(3) i(4)] tr' f i t r show ?thesis
    by (simp add: uploadImageToWordPress_def)
qed

lemma POST_try_publishes:
  assumes b: "request_json env w = (Returns body, w0)"
    and d: "destructure_body body = Returns (JStr language, published, status)"
    and p: "truthy published"
    and l: "language = ''english'' \<or> language = ''french''"
    and i: "parseInt env params_id = Some i"
    and g: "tweets_getAll env 10000 0 w0 = (Returns rows, w1)"
    and f: "find (\<lambda>t. row_id t = i) rows = Some tweet"
    and a1: "truthy (if language = ''english'' then article_english tweet else article_french tweet)"
    and a2: "decode_article env (if language = ''english'' then article_english tweet else article_french tweet)
               = Returns articleData"
    and a3: "article_incomplete articleData = Returns False"
    and a4: "title_and_markdown articleData = Returns (title, markdown)"
    and c1: "settings_get env (if language = ''english'' then ''wordpressEnglishUrl'' else ''wordpressFrenchUrl'') w1
               = (Returns (Some wpUrl), w2)"
    and c2: "settings_get env (if language = ''english'' then ''wordpressEnglishUsername''
                               else ''wordpressFrenchUsername'') w2
               = (Returns (Some wpUsername), w3)"
    and c3: "settings_get env (if language = ''english'' then ''wordpressEnglishPassword''
                               else ''wordpressFrenchPassword'') w3
               = (Returns (Some wpPassword), w4)"
    and n: "wpUrl \<noteq> []" "wpUsername \<noteq> []" "wpPassword \<noteq> []"
  shows "POST_try env params_id (w, tr)
           = submit_post env i language status tweet title markdown (decode_media env (media_urls tweet))
               wpUrl wpUsername wpPassword
               (w4, tr @ GetAll 10000 0 #
                     map SettingsGet
                       (if language = ''english''
                        then [''wordpressEnglishUrl'', ''wordpressEnglishUsername'', ''wordpressEnglishPassword'']
                        else [''wordpressFrenchUrl'', ''wordpressFrenchUsername'', ''wordpressFrenchPassword'']))"
proof -
  have d': "and_then (Returns body) destructure_body = Returns (JStr language, published, status)"
    using d by simp
  have l': "JStr language = JStr ''english'' \<or> JStr language = JStr ''french''"
    using l by simp
  from POST_try_found [OF b d' i l' g f, of tr] p
  have "POST_try env params_id (w, tr) = publish env i language status tweet (w1, tr @ [GetAll 10000 0])"
    by simp
  also have "\<dots> = publish_article env i language status tweet articleData (w1, tr @ [GetAll 10000 0])"
    using a1 a2 a3 by (simp add: publish_def Let_def)
  also have "\<dots> = submit_post env i language status tweet title markdown (decode_media env (media_urls tweet))
               wpUrl wpUsername wpPassword
               (w4, tr @ GetAll 10000 0 #
                     map SettingsGet
                       (if language = ''english''
                        then [''wordpressEnglishUrl'', ''wordpressEnglishUsername'', ''wordpressEnglishPassword'']
                        else [''wordpressFrenchUrl'', ''wordpressFrenchUsername'', ''wordpressFrenchPassword'']))"
    using a4 c1 c2 c3 n l
    by (auto simp: publish_article_def read_credentials_def do_settings_get_def opt_truthy_def Let_def)
  finally show ?thesis .
qed

lemma publish_tail_downloads: "publish_tail i l r tail \<Longrightarrow> downloads tail = []"
  unfolding publish_tail_def by auto

lemma post_create_member:
  "list_ex is_post_create evs \<Longrightarrow> \<exists>u auth d x. PostCreate u auth d x \<in> set evs"
proof (induction evs)
  case Nil
  then show ?case by simp
next
  case (Cons e evs)
  then show ?case by (cases e) auto
qed

lemma submit_post_posts:
  assumes run: "submit_post env i l st t title md urls wp un pw (w, tr) = (r, (w', tr @ evs))"
    and m: "marked env md = Returns html"
  shows "\<exists>u auth d x. PostCreate u auth d x \<in> set evs"
proof -
  obtain w1 pre where
    up: "upload_images env urls wp un pw [] (w, tr)
           = (Returns ([] @ successes (upload_attempts env urls wp un pw (w, tr))), (w1, tr @ pre))"
    using upload_images_run [of env urls wp un pw "[]" w tr] by blast
  have "list_ex is_post_create evs"
    using run up m unfolding submit_post_def do_defs
    by (auto simp: Let_def split: prod.splits outcome.splits if_splits
             dest!: record_published_shape)
  then show ?thesis by (rule post_create_member)
qed

lemma post_data_fields:
  "get_prop (post_data title c status featured) ''title'' = Returns title"
  "get_prop (post_data title c status featured) ''content'' = Returns (JStr c)"
  "get_prop (post_data title c status featured) ''status''
     = Returns (if truthy status then status else JStr ''publish'')"
  "get_prop (post_data title c status featured) ''featured_media''
     = Returns (if truthy featured then featured else JUndefined)"
  by (simp_all add: post_data_def js_or_def)

lemma featured_of_successes:
  assumes "uploadedImages = successes (upload_attempts env urls wp un pw (w, tr))"
  shows "(if truthy (featured_media_id uploadedImages) then featured_media_id uploadedImages else JUndefined)
           = (case uploadedImages of [] \<Rightarrow> JUndefined | first # others \<Rightarrow> mediaId first)"
proof (cases uploadedImages)
  case Nil
  then show ?thesis by (simp add: featured_media_id_def)
next
  case (Cons first others)
  then have "first \<in> set (successes (upload_attempts env urls wp un pw (w, tr)))"
    using assms by simp
  then have "truthy (mediaId first)"
    by (rule upload_attempts_truthy [OF successes_member])
  with Cons show ?thesis by (simp add: featured_media_id_def)
qed

section \<open>Evaluating the sample\<close>

lemmas model_defs = POST_def POST_try_def publish_def publish_article_def submit_post_def
  record_published_def wordpress_error_def post_data_def full_content_def images_html_def
  gallery_open_def
  figure_html_def featured_media_id_def uploadImageToWordPress_def uploadImage_try_def
  read_media_def uploaded_url_def basic_auth_def choose_filename_def content_type_or_jpeg_def
  filename_of_path_def strip_trailing_slash_def decode_media_def media_item_url_def
  article_incomplete_def decode_article_def unpublish_def destructure_body_def error_reply_def
  read_credentials_def title_and_markdown_def opt_truthy_def js_or_def ok_def NextResponse_json_def
  NextResponse_json_checked_def read_text_def
  do_defs

lemmas sample_defs = sample_env_def sample_tweet_def other_tweet_def sample_article_def
  sample_media_def sample_parse_def sample_image_def sample_media_created_def
  sample_media_refused_def sample_post_created_def sample_settings_def store_getAll_def
  forbidden_env_def gateway_env_def sample_forbidden_def sample_bad_gateway_def
  no_content_env_def sample_no_content_def
  urlless_env_def sample_media_without_url_def
  mixed_tweet_def mixed_media_def

lemma sample_marks_published:
  "UpdatePublished 42 ''english'' True (JStr ''https://blog.example/?p=7'')
     \<in> set (snd (snd (POST sample_env ''42'' ([other_tweet, sample_tweet], []))))"
  by (simp add: model_defs sample_defs Let_def)

lemma forbidden_not_created:
  "\<forall>u auth d response.
      PostCreate u auth d (Returns response) \<in> set (snd (snd (POST forbidden_env ''42'' ([other_tweet, sample_tweet], []))))
      \<longrightarrow> http_status response \<noteq> 201"
  by (simp add: model_defs sample_defs Let_def)

lemma forbidden_asks_to_publish:
  "\<exists>body w0 p. request_json forbidden_env [other_tweet, sample_tweet] = (Returns body, w0)
      \<and> get_prop body ''published'' = Returns p \<and> truthy p"
  by (simp add: forbidden_env_def sample_env_def)

lemma sample_upload_first:
  "fst (uploadImageToWordPress sample_env (JStr ''http://img/1.jpg'') ''https://blog.example/'' ''admin'' ''secret''
          ([], []))
     = Returns (Some \<lparr>mediaId = JNum 11, url = JStr ''https://blog.example/media/1.jpg''\<rparr>)"
  by (simp add: model_defs sample_defs Let_def)

lemma sample_upload_refused_trace:
  "snd (snd (uploadImageToWordPress sample_env (JStr ''http://img/2.jpg'') ''https://blog.example/''
               ''admin'' ''secret'' ([], [])))
     = [ImageDownload (JStr ''http://img/2.jpg'') (Returns sample_image)]
       @ [MediaUpload ''https://blog.example/wp-json/wp/v2/media'' ''Basic admin:secret'' ''2.jpg''
            (Returns sample_media_refused)]"
  by (simp add: model_defs sample_defs Let_def)

lemma sample_upload_urlless_trace:
  "snd (snd (uploadImageToWordPress urlless_env (JStr ''http://img/1.jpg'') ''https://blog.example/''
               ''admin'' ''secret'' ([], [])))
     = [ImageDownload (JStr ''http://img/1.jpg'') (Returns sample_image)]
       @ [MediaUpload ''https://blog.example/wp-json/wp/v2/media'' ''Basic admin:secret'' ''1.jpg''
            (Returns sample_media_without_url)]"
  by (simp add: model_defs sample_defs Let_def)

lemma sample_media_urls:
  "decode_media sample_env (media_urls sample_tweet)
     = [JStr ''http://img/1.jpg'', JStr ''http://img/2.jpg'', JStr ''http://img/3.jpg'']"
  by (simp add: model_defs sample_defs)

lemma sample_attempts:
  "upload_attempts sample_env [JStr ''http://img/1.jpg'', JStr ''http://img/2.jpg'', JStr ''http://img/3.jpg'']
      ''https://blog.example/'' ''admin'' ''secret''
      ([other_tweet, sample_tweet],
       [GetAll 10000 0, SettingsGet ''wordpressEnglishUrl'', SettingsGet ''wordpressEnglishUsername'',
        SettingsGet ''wordpressEnglishPassword''])
     = [Returns (Some \<lparr>mediaId = JNum 11, url = JStr ''https://blog.example/media/1.jpg''\<rparr>),
        Returns None,
        Returns (Some \<lparr>mediaId = JNum 13, url = JStr ''https://blog.example/media/3.jpg''\<rparr>)]"
  by (simp add: model_defs sample_defs Let_def)

section \<open>The bulk delete handler: what it answers\<close>

text \<open>
  C6. On a store holding \<open>N\<close> rows the bulk delete handler answers
  \<open>{success: true, deletedCount: N, message}\<close> and leaves the store empty, so that the
  same request immediately repeated answers \<open>deletedCount = 0\<close>; and when \<open>getCount\<close> or
  \<open>deleteAll\<close> throws, whatever the store, it answers 500 with an error message.
\<close>

theorem bulk_delete_counts_and_empties:
  fixes base :: "tweet list env" and env :: "'w env"
  shows
  "fst (DELETE (with_store base) (rows, tr))
     = NextResponse_json
         (JObj [(''success'', JBool True),
                (''deletedCount'', JNum (int (length rows))),
                (''message'', JStr (''Successfully deleted '' @ string_of_nat (length rows) @ '' tweet(s)''))])
         200
   \<and> fst (snd (DELETE (with_store base) (rows, tr))) = []
   \<and> fst (DELETE (with_store base) (snd (DELETE (with_store base) (rows, tr))))
     = NextResponse_json
         (JObj [(''success'', JBool True),
                (''deletedCount'', JNum 0),
                (''message'', JStr (''Successfully deleted '' @ string_of_nat 0 @ '' tweet(s)''))])
         200
   \<and> ((fst (tweets_getCount env w) = Throws e
         \<or> (\<exists>n w1. tweets_getCount env w = (Returns n, w1) \<and> fst (tweets_deleteAll env w1) = Throws e))
        \<longrightarrow> fst (DELETE env (w, tr'))
              = NextResponse_json
                  (JObj [(''error'', JStr ''Failed to delete tweets''), (''message'', JStr e)]) 500)"
proof -
  have stored: "DELETE (with_store base) (rs, t) = (delete_done (length rs), ([], t @ [GetCount, DeleteAll]))"
    for rs t
    by (simp add: DELETE_def with_store_def do_getCount_def do_deleteAll_def
                  store_getCount_def store_deleteAll_def)
  have failing: "fst (DELETE env (w, tr')) = delete_failed e"
    if "fst (tweets_getCount env w) = Throws e
        \<or> (\<exists>n w1. tweets_getCount env w = (Returns n, w1) \<and> fst (tweets_deleteAll env w1) = Throws e)"
    using that
    by (auto simp add: DELETE_def do_getCount_def do_deleteAll_def split: prod.splits outcome.splits)
  show ?thesis
    using failing by (simp add: stored delete_done_def delete_failed_def)
qed

theorem bulk_delete_counts_and_empties_witness:
  "fst (DELETE (with_store sample_env) ([other_tweet, sample_tweet], []))
     = NextResponse_json
         (JObj [(''success'', JBool True), (''deletedCount'', JNum 2),
                (''message'', JStr ''Successfully deleted 2 tweet(s)'')]) 200
   \<and> fst (snd (DELETE (with_store sample_env) ([other_tweet, sample_tweet], []))) = []
   \<and> fst (DELETE (with_store sample_env) (snd (DELETE (with_store sample_env) ([other_tweet, sample_tweet], []))))
     = NextResponse_json
         (JObj [(''success'', JBool True), (''deletedCount'', JNum 0),
                (''message'', JStr ''Successfully deleted 0 tweet(s)'')]) 200
   \<and> fst (DELETE locked_env ([other_tweet], []))
     = NextResponse_json
         (JObj [(''error'', JStr ''Failed to delete tweets''), (''message'', JStr ''database is locked'')]) 500"
proof -
  have h: "\<exists>n w1. tweets_getCount locked_env [other_tweet] = (Returns n, w1)
             \<and> fst (tweets_deleteAll locked_env w1) = Throws ''database is locked''"
    by (simp add: locked_env_def sample_env_def store_getCount_def)
  show ?thesis
    using h bulk_delete_counts_and_empties
            [of sample_env "[other_tweet, sample_tweet]" "[]" locked_env "[other_tweet]"
                "''database is locked''" "[]"]
    by (simp add: string_of_nat.simps)
qed

section \<open>The publish handler: the store and the remote post\<close>

text \<open>
  C1. Whatever the request and the environment, the handler calls
  \<open>updatePublished(id, language, true, link)\<close> only as the call that directly follows a
  post-creation call answered 201, and nothing before that call touches the publish
  state. For a publish request (a truthy \<open>published\<close>) no run without a 201 from the
  post-creation call (validation error, missing credentials, another status, a thrown
  error) calls \<open>updatePublished\<close> at all, so the publish state stays as it was.
\<close>

theorem published_only_after_created:
  assumes "POST env params_id (w, tr) = (answer, (w', tr'))"
  shows "\<exists>evs. tr' = tr @ evs
     \<and> (\<forall>i l link. UpdatePublished i l True link \<in> set evs \<longrightarrow>
          (\<exists>pre u auth d response.
              evs = pre @ [PostCreate u auth d (Returns response), UpdatePublished i l True link]
              \<and> http_status response = 201 \<and> list_all preparatory pre))
     \<and> ((\<exists>body w0 p. request_json env w = (Returns body, w0)
              \<and> get_prop body ''published'' = Returns p \<and> truthy p)
         \<and> (\<forall>u auth d response. PostCreate u auth d (Returns response) \<in> set evs
               \<longrightarrow> http_status response \<noteq> 201)
         \<longrightarrow> list_all (\<lambda>e. \<not> is_update e) evs)"
proof -
  from POST_run [OF assms] obtain r where r: "POST_try env params_id (w, tr) = (r, (w', tr'))" by blast
  from POST_try_run [OF r] show ?thesis
  proof
    assume "\<exists>i l. publish_run tr tr' i l r"
    then obtain i l pre tail where
      t: "tr' = tr @ pre @ tail" and p: "list_all preparatory pre" and e: "publish_tail i l r tail"
      unfolding publish_run_def by blast
    have a: "\<exists>pre' u auth d response.
              pre @ tail = pre' @ [PostCreate u auth d (Returns response), UpdatePublished i' l' True link]
              \<and> http_status response = 201 \<and> list_all preparatory pre'"
      if "UpdatePublished i' l' True link \<in> set (pre @ tail)" for i' l' link
    proof -
      from that preparatory_not_update [OF p] have "UpdatePublished i' l' True link \<in> set tail"
        by fastforce
      from publish_tail_update [OF e this] p show ?thesis by blast
    qed
    have b: "list_all (\<lambda>e. \<not> is_update e) (pre @ tail)"
      if "\<forall>u auth d response. PostCreate u auth d (Returns response) \<in> set (pre @ tail)
               \<longrightarrow> http_status response \<noteq> 201"
    proof -
      from that have "\<forall>u auth d response. PostCreate u auth d (Returns response) \<in> set tail
               \<longrightarrow> http_status response \<noteq> 201" by simp
      from publish_tail_not_created [OF e this] preparatory_not_update [OF p]
      show ?thesis by (auto simp: list_all_iff)
    qed
    show ?thesis
      by (rule exI [of _ "pre @ tail"]) (use t a b in blast)
  next
    assume "\<exists>i l body w0 p. tr' = tr @ [GetAll 10000 0, UpdatePublished i l False JNull]
               \<and> request_json env w = (Returns body, w0)
               \<and> get_prop body ''published'' = Returns p \<and> \<not> truthy p"
    then obtain i l body w0 p where
      t: "tr' = tr @ [GetAll 10000 0, UpdatePublished i l False JNull]"
      and q: "request_json env w = (Returns body, w0)" "get_prop body ''published'' = Returns p" "\<not> truthy p"
      by blast
    show ?thesis
      by (rule exI [of _ "[GetAll 10000 0, UpdatePublished i l False JNull]"]) (use t q in auto)
  qed
qed


theorem published_only_after_created_witness:
  "(\<exists>pre u auth d response.
      snd (snd (POST sample_env ''42'' ([other_tweet, sample_tweet], [])))
        = pre @ [PostCreate u auth d (Returns response),
                 UpdatePublished 42 ''english'' True (JStr ''https://blog.example/?p=7'')]
      \<and> http_status response = 201 \<and> list_all preparatory pre)
   \<and> list_all (\<lambda>e. \<not> is_update e) (snd (snd (POST forbidden_env ''42'' ([other_tweet, sample_tweet], []))))"
proof
  have "POST sample_env ''42'' ([other_tweet, sample_tweet], [])
          = (fst (POST sample_env ''42'' ([other_tweet, sample_tweet], [])),
             (fst (snd (POST sample_env ''42'' ([other_tweet, sample_tweet], []))),
              snd (snd (POST sample_env ''42'' ([other_tweet, sample_tweet], [])))))"
    by simp
  from published_only_after_created [OF this] sample_marks_published
  show "\<exists>pre u auth d response.
      snd (snd (POST sample_env ''42'' ([other_tweet, sample_tweet], [])))
        = pre @ [PostCreate u auth d (Returns response),
                 UpdatePublished 42 ''english'' True (JStr ''https://blog.example/?p=7'')]
      \<and> http_status response = 201 \<and> list_all preparatory pre"
    by auto
next
  have "POST forbidden_env ''42'' ([other_tweet, sample_tweet], [])
          = (fst (POST forbidden_env ''42'' ([other_tweet, sample_tweet], [])),
             (fst (snd (POST forbidden_env ''42'' ([other_tweet, sample_tweet], []))),
              snd (snd (POST forbidden_env ''42'' ([other_tweet, sample_tweet], [])))))"
    by simp
  from published_only_after_created [OF this] forbidden_not_created forbidden_asks_to_publish
  show "list_all (\<lambda>e. \<not> is_update e) (snd (snd (POST forbidden_env ''42'' ([other_tweet, sample_tweet], []))))"
    by auto
qed


text \<open>
  C2. A post-creation response other than 201 is meant to reach the caller with its own
  status and its error body, and the handler does so for a JSON body: a 403 with a JSON
  body is answered 403 with that body under \<open>details\<close>. For a body that is not JSON the
  fallback reads the body a second time, which a response does not allow: a 502 with an
  HTML body is answered 500 by the \<open>catch\<close>, not 502. A 204 is answered 500 as well, the
  answer with a body being refused at that status. In all three runs the post-creation
  call is made once.
\<close>

theorem refused_post_with_unparsable_body_answers_500:
  "fst (POST forbidden_env ''42'' ([other_tweet, sample_tweet], []))
     = NextResponse_json
         (JObj [(''error'', JStr ''WordPress API error: 403''),
                (''details'', JObj [(''code'', JStr ''rest_cannot_create'')])]) 403
   \<and> post_responses (snd (snd (POST forbidden_env ''42'' ([other_tweet, sample_tweet], []))))
       = [Returns sample_forbidden]
   \<and> post_responses (snd (snd (POST gateway_env ''42'' ([other_tweet, sample_tweet], []))))
       = [Returns sample_bad_gateway]
   \<and> http_status sample_bad_gateway = 502
   \<and> body_text sample_bad_gateway = Returns ''<html>502 Bad Gateway</html>''
   \<and> fst (POST gateway_env ''42'' ([other_tweet, sample_tweet], []))
       = NextResponse_json
           (JObj [(''error'', JStr ''Failed to publish article''),
                  (''message'', JStr ''Body is unusable: Body has already been read'')]) 500
   \<and> post_responses (snd (snd (POST no_content_env ''42'' ([other_tweet, sample_tweet], []))))
       = [Returns sample_no_content]
   \<and> http_status sample_no_content = 204
   \<and> fst (POST no_content_env ''42'' ([other_tweet, sample_tweet], []))
       = NextResponse_json
           (JObj [(''error'', JStr ''Failed to publish article''),
                  (''message'', JStr ''Response constructor: Invalid response status code 204'')]) 500"
  by (simp add: model_defs sample_defs Let_def string_of_nat.simps)

section \<open>The publish handler: validation and the unpublish branch\<close>

text \<open>
  C3, as the code has it. A request with \<open>published = false\<close> and a valid language, whose
  id is that of a tweet among the rows \<open>getAll(10000, 0)\<close> returns, makes no outbound call: the run
  consists of the lookup and of \<open>updatePublished(id, language, false, null)\<close>. The handler
  answers \<open>{success: true}\<close> when that update returns true, and 500 when it returns false
  or throws.
\<close>

theorem unpublish_clears_without_wordpress:
  assumes "request_json env w = (Returns body, w0)"
    and "destructure_body body = Returns (JStr language, JBool False, status)"
    and "language = ''english'' \<or> language = ''french''"
    and "parseInt env params_id = Some i"
    and "tweets_getAll env 10000 0 w0 = (Returns rows, w1)"
    and "find (\<lambda>t. row_id t = i) rows = Some tweet"
    and "tweets_updatePublished env i language False JNull w1 = (u, w2)"
  shows "\<exists>evs. snd (POST env params_id (w, tr)) = (w2, tr @ evs)
           \<and> evs = [GetAll 10000 0, UpdatePublished i language False JNull]
           \<and> list_all (\<lambda>e. \<not> is_outbound e) evs
           \<and> (u = Returns True \<longrightarrow>
                 fst (POST env params_id (w, tr)) = NextResponse_json (JObj [(''success'', JBool True)]) 200)
           \<and> (u \<noteq> Returns True \<longrightarrow> reply_status (fst (POST env params_id (w, tr))) = 500)"
  using unpublish_request_run [OF assms(1) assms(2) assms(3) _ assms(4) assms(5) assms(6) assms(7), of tr]
  by (cases u) (auto simp: NextResponse_json_def)

theorem unpublish_clears_without_wordpress_witness:
  "snd (POST unpublish_env ''42'' ([other_tweet, sample_tweet], []))
     = ([other_tweet, sample_tweet], [GetAll 10000 0, UpdatePublished 42 ''english'' False JNull])
   \<and> fst (POST unpublish_env ''42'' ([other_tweet, sample_tweet], []))
     = NextResponse_json (JObj [(''success'', JBool True)]) 200"
proof -
  have h1: "request_json unpublish_env [other_tweet, sample_tweet]
              = (Returns (JObj [(''language'', JStr ''english''), (''published'', JBool False)]),
                 [other_tweet, sample_tweet])"
    by (simp add: unpublish_env_def sample_env_def)
  have h2: "destructure_body (JObj [(''language'', JStr ''english''), (''published'', JBool False)])
              = Returns (JStr ''english'', JBool False, JUndefined)"
    by (simp add: destructure_body_def)
  have h3: "''english'' = ''english'' \<or> ''english'' = ''french''" by simp
  have h4: "parseInt unpublish_env ''42'' = Some 42"
    by (simp add: unpublish_env_def sample_env_def)
  have h5: "tweets_getAll unpublish_env 10000 0 [other_tweet, sample_tweet]
              = (Returns [other_tweet, sample_tweet], [other_tweet, sample_tweet])"
    by (simp add: unpublish_env_def sample_env_def store_getAll_def)
  have h6: "find (\<lambda>t. row_id t = 42) [other_tweet, sample_tweet] = Some sample_tweet"
    by (simp add: sample_tweet_def other_tweet_def)
  have h7: "tweets_updatePublished unpublish_env 42 ''english'' False JNull [other_tweet, sample_tweet]
              = (Returns True, [other_tweet, sample_tweet])"
    by (simp add: unpublish_env_def sample_env_def)
  from unpublish_clears_without_wordpress [OF h1 h2 h3 h4 h5 h6 h7, of "[]"]
  show ?thesis by simp
qed

text \<open>
  C3 as stated fails for a tweet that exists in the store beyond the rows the lookup
  reads: in a store of 10001 rows whose last row is tweet 42, the request with
  \<open>published = false\<close> is answered 404 and \<open>updatePublished\<close> is not called.
\<close>

theorem unpublish_beyond_window_not_found:
  "sample_tweet \<in> set (replicate 10000 other_tweet @ [sample_tweet]) \<and> row_id sample_tweet = 42
   \<and> POST unpublish_env ''42'' (replicate 10000 other_tweet @ [sample_tweet], [])
       = (NextResponse_json (JObj [(''error'', JStr ''Tweet not found'')]) 404,
          (replicate 10000 other_tweet @ [sample_tweet], [GetAll 10000 0]))"
proof -
  have h1: "parseInt unpublish_env ''42'' = Some 42" by (simp add: unpublish_env_def sample_env_def)
  have h2: "request_json unpublish_env (replicate 10000 other_tweet @ [sample_tweet])
              = (Returns (JObj [(''language'', JStr ''english''), (''published'', JBool False)]),
                 replicate 10000 other_tweet @ [sample_tweet])"
    by (simp add: unpublish_env_def sample_env_def)
  have h3: "and_then (Returns (JObj [(''language'', JStr ''english''), (''published'', JBool False)])) destructure_body
              = Returns (JStr ''english'', JBool False, JUndefined)"
    by (simp add: destructure_body_def)
  have h4: "JStr ''english'' = JStr ''english'' \<or> JStr ''english'' = JStr ''french''" by simp
  have h5: "tweets_getAll unpublish_env 10000 0 (replicate 10000 other_tweet @ [sample_tweet])
              = (Returns (replicate 10000 other_tweet), replicate 10000 other_tweet @ [sample_tweet])"
    by (simp add: unpublish_env_def sample_env_def store_getAll_def)
  have h6: "find (\<lambda>t. row_id t = 42) (replicate 10000 other_tweet) = None"
    by (simp add: find_None_iff other_tweet_def)
  from POST_try_not_found [OF h2 h3 h1 h4 h5 h6, of "[]"]
  show ?thesis by (simp add: POST_def error_reply_def sample_tweet_def)
qed

text \<open>
  C10. The unpublish branch is chosen by truthiness: with \<open>published\<close> absent from the
  body, or equal to \<open>false\<close>, \<open>0\<close>, \<open>''\<close> or \<open>null\<close>, the handler calls
  \<open>updatePublished(id, language, false, null)\<close> and answers \<open>{success: true}\<close>, not an error.
\<close>

theorem falsy_published_unpublishes:
  assumes "request_json env w = (Returns (JObj kvs), w0)"
    and "map_of kvs ''language'' = Some (JStr language)"
    and "language = ''english'' \<or> language = ''french''"
    and "map_of kvs ''published'' \<in> {None, Some (JBool False), Some (JNum 0), Some (JStr []), Some JNull}"
    and "parseInt env params_id = Some i"
    and "tweets_getAll env 10000 0 w0 = (Returns rows, w1)"
    and "find (\<lambda>t. row_id t = i) rows = Some tweet"
    and "tweets_updatePublished env i language False JNull w1 = (u, w2)"
  shows "snd (POST env params_id (w, tr))
           = (w2, tr @ [GetAll 10000 0, UpdatePublished i language False JNull])
       \<and> (u = Returns True \<longrightarrow>
             fst (POST env params_id (w, tr)) = NextResponse_json (JObj [(''success'', JBool True)]) 200)"
proof -
  obtain published status where
    d: "destructure_body (JObj kvs) = Returns (JStr language, published, status)"
    and f: "\<not> truthy published"
    using assms(2) assms(4) by (auto simp: destructure_body_def)
  from unpublish_request_run [OF assms(1) d assms(3) f assms(5) assms(6) assms(7) assms(8), of tr]
  show ?thesis by auto
qed

theorem falsy_published_unpublishes_witness:
  "POST omitting_env ''42'' ([other_tweet, sample_tweet], [])
     = (NextResponse_json (JObj [(''success'', JBool True)]) 200,
        ([other_tweet, sample_tweet], [GetAll 10000 0, UpdatePublished 42 ''english'' False JNull]))"
proof -
  have h1: "request_json omitting_env [other_tweet, sample_tweet]
              = (Returns (JObj [(''language'', JStr ''english'')]), [other_tweet, sample_tweet])"
    by (simp add: omitting_env_def sample_env_def)
  have h2: "map_of [(''language'', JStr ''english'')] ''language'' = Some (JStr ''english'')" by simp
  have h3: "''english'' = ''english'' \<or> ''english'' = ''french''" by simp
  have h4: "map_of [(''language'', JStr ''english'')] ''published''
              \<in> {None, Some (JBool False), Some (JNum 0), Some (JStr []), Some JNull}" by simp
  have h5: "parseInt omitting_env ''42'' = Some 42"
    by (simp add: omitting_env_def sample_env_def)
  have h6: "tweets_getAll omitting_env 10000 0 [other_tweet, sample_tweet]
              = (Returns [other_tweet, sample_tweet], [other_tweet, sample_tweet])"
    by (simp add: omitting_env_def sample_env_def store_getAll_def)
  have h7: "find (\<lambda>t. row_id t = 42) [other_tweet, sample_tweet] = Some sample_tweet"
    by (simp add: sample_tweet_def other_tweet_def)
  have h8: "tweets_updatePublished omitting_env 42 ''english'' False JNull [other_tweet, sample_tweet]
              = (Returns True, [other_tweet, sample_tweet])"
    by (simp add: omitting_env_def sample_env_def)
  from falsy_published_unpublishes [OF h1 h2 h3 h4 h5 h6 h7 h8, of "[]"]
  show ?thesis by (simp add: prod_eq_iff)
qed

text \<open>
  C4, as the code has it. When the path id does not parse to an integer and the request
  body can be read as JSON other than \<open>null\<close>, the handler answers 400 "Invalid tweet ID"
  whatever the fields of the body are, and calls neither the store nor the network.
\<close>

theorem invalid_id_answers_400:
  assumes "parseInt env params_id = None"
    and "request_json env w = (Returns body, w0)"
    and "body \<noteq> JNull" and "body \<noteq> JUndefined"
  shows "POST env params_id (w, tr) = (NextResponse_json (JObj [(''error'', JStr ''Invalid tweet ID'')]) 400, (w0, tr))"
proof -
  from get_prop_defined [OF assms(3) assms(4)]
  obtain l p s where "get_prop body ''language'' = Returns l" "get_prop body ''published'' = Returns p"
    "get_prop body ''status'' = Returns s" by metis
  then have "and_then (Returns body) destructure_body = Returns (l, p, s)"
    by (simp add: destructure_body_def)
  from POST_try_invalid_id [OF assms(2) this assms(1), of tr] show ?thesis
    by (simp add: POST_def error_reply_def)
qed

theorem invalid_id_answers_400_witness:
  "POST sample_env ''abc'' ([other_tweet, sample_tweet], [])
     = (NextResponse_json (JObj [(''error'', JStr ''Invalid tweet ID'')]) 400, ([other_tweet, sample_tweet], []))"
proof -
  have h1: "parseInt sample_env ''abc'' = None" by (simp add: sample_env_def)
  have h2: "request_json sample_env [other_tweet, sample_tweet]
              = (Returns (JObj [(''language'', JStr ''english''), (''published'', JBool True)]),
                 [other_tweet, sample_tweet])"
    by (simp add: sample_env_def)
  have h3: "JObj [(''language'', JStr ''english''), (''published'', JBool True)] \<noteq> JNull" by simp
  have h4: "JObj [(''language'', JStr ''english''), (''published'', JBool True)] \<noteq> JUndefined" by simp
  from invalid_id_answers_400 [OF h1 h2 h3 h4, of "[]"] show ?thesis .
qed

text \<open>
  C4 as stated fails: the body is read before the id is checked, so with a body that is
  not JSON the handler answers 500 although the id does not parse.
\<close>

theorem invalid_id_with_unreadable_body:
  "parseInt unparsable_env ''abc'' = None
   \<and> fst (POST unparsable_env ''abc'' ([other_tweet, sample_tweet], []))
       = NextResponse_json
           (JObj [(''error'', JStr ''Failed to publish article''),
                  (''message'', JStr ''Unexpected end of JSON input'')]) 500"
  by (simp add: unparsable_env_def sample_env_def POST_def POST_try_def NextResponse_json_def)

text \<open>
  C9. Whether the tweet exists is decided from the rows that \<open>getAll(10000, 0)\<close> returns
  and from nothing else: when none of these rows has the id the handler answers 404
  "Tweet not found" after that single call, whatever else the store holds, and when one
  of them has the id it does not.
\<close>

theorem lookup_reads_first_10000_rows:
  assumes "parseInt env params_id = Some i"
    and "request_json env w = (Returns body, w0)"
    and "destructure_body body = Returns (JStr language, published, status)"
    and "language = ''english'' \<or> language = ''french''"
    and "tweets_getAll env 10000 0 w0 = (Returns rows, w1)"
  shows "((\<forall>t \<in> set rows. row_id t \<noteq> i) \<longrightarrow>
            POST env params_id (w, tr)
              = (NextResponse_json (JObj [(''error'', JStr ''Tweet not found'')]) 404,
                 (w1, tr @ [GetAll 10000 0])))
       \<and> ((\<exists>t \<in> set rows. row_id t = i) \<longrightarrow>
            reply_body (fst (POST env params_id (w, tr))) \<noteq> JObj [(''error'', JStr ''Tweet not found'')])"
proof -
  have d: "and_then (Returns body) destructure_body = Returns (JStr language, published, status)"
    using assms(3) by simp
  have l: "JStr language = JStr ''english'' \<or> JStr language = JStr ''french''"
    using assms(4) by simp
  have absent: "POST env params_id (w, tr)
              = (NextResponse_json (JObj [(''error'', JStr ''Tweet not found'')]) 404,
                 (w1, tr @ [GetAll 10000 0]))"
    if "\<forall>t \<in> set rows. row_id t \<noteq> i"
  proof -
    from that have n: "find (\<lambda>t. row_id t = i) rows = None"
      by (simp add: find_None_iff)
    from POST_try_not_found [OF assms(2) d assms(1) l assms(5) n, of tr] show ?thesis
      by (simp add: POST_def error_reply_def)
  qed
  have present: "reply_body (fst (POST env params_id (w, tr))) \<noteq> JObj [(''error'', JStr ''Tweet not found'')]"
    if "\<exists>t \<in> set rows. row_id t = i"
  proof -
    from that obtain t where f: "find (\<lambda>t. row_id t = i) rows = Some t"
      by (cases "find (\<lambda>t. row_id t = i) rows") (auto simp: find_None_iff)
    note eq = POST_try_found [OF assms(2) d assms(1) l assms(5) f, of tr]
    obtain r s' where r: "POST_try env params_id (w, tr) = (r, s')" by (metis prod.exhaust)
    show ?thesis
    proof (cases r)
      case (Throws e)
      with r show ?thesis by (simp add: POST_def NextResponse_json_def)
    next
      case (Returns x)
      have "reply_body x \<noteq> JObj [(''error'', JStr ''Tweet not found'')]"
      proof (cases "truthy published")
        case True
        with r eq Returns
        have "publish env i (js_string (JStr language)) status t (w1, tr @ [GetAll 10000 0]) = (Returns x, s')"
          by simp
        from publish_answer [OF this] show ?thesis .
      next
        case False
        with r eq Returns
        have "unpublish env i (js_string (JStr language)) (w1, tr @ [GetAll 10000 0]) = (Returns x, s')"
          by simp
        from unpublish_answer [OF this] show ?thesis .
      qed
      with r Returns show ?thesis by (simp add: POST_def)
    qed
  qed
  from absent present show ?thesis by blast
qed

theorem lookup_reads_first_10000_rows_witness:
  "sample_tweet \<in> set (replicate 10000 other_tweet @ [sample_tweet]) \<and> row_id sample_tweet = 42
   \<and> POST sample_env ''42'' (replicate 10000 other_tweet @ [sample_tweet], [])
       = (NextResponse_json (JObj [(''error'', JStr ''Tweet not found'')]) 404,
          (replicate 10000 other_tweet @ [sample_tweet], [GetAll 10000 0]))"
proof -
  have h1: "parseInt sample_env ''42'' = Some 42" by (simp add: sample_env_def)
  have h2: "request_json sample_env (replicate 10000 other_tweet @ [sample_tweet])
              = (Returns (JObj [(''language'', JStr ''english''), (''published'', JBool True)]),
                 replicate 10000 other_tweet @ [sample_tweet])"
    by (simp add: sample_env_def)
  have h3: "destructure_body (JObj [(''language'', JStr ''english''), (''published'', JBool True)])
              = Returns (JStr ''english'', JBool True, JUndefined)"
    by (simp add: destructure_body_def)
  have h4: "''english'' = ''english'' \<or> ''english'' = ''french''" by simp
  have h5: "tweets_getAll sample_env 10000 0 (replicate 10000 other_tweet @ [sample_tweet])
              = (Returns (replicate 10000 other_tweet), replicate 10000 other_tweet @ [sample_tweet])"
    by (simp add: sample_env_def store_getAll_def)
  have h6: "\<forall>t \<in> set (replicate 10000 other_tweet). row_id t \<noteq> 42"
    by (simp add: other_tweet_def)
  from lookup_reads_first_10000_rows [OF h1 h2 h3 h4 h5, of "[]"] h6
  show ?thesis by (simp add: sample_tweet_def)
qed

section \<open>The image uploader: every failure is a skipped image\<close>

text \<open>
  C8. The uploader never raises to its caller: for every url, credentials and
  environment it resolves to a value. It resolves to \<open>null\<close> when anything in its body
  throws (a network error, a timeout, an unreadable body), when the download is not a
  success, when the upload is answered with a status other than 201, and when the body of
  a 201 has no truthy \<open>id\<close> or none of \<open>source_url\<close>, \<open>guid.rendered\<close> and \<open>link\<close>. It
  resolves to an image only after a successful download followed by an upload answered
  201, and then with the \<open>id\<close> of the decoded body and with one of these three urls.
\<close>

theorem uploader_never_raises:
  "(\<exists>r s'. uploadImageToWordPress env imageUrl wpUrl wpUsername wpPassword (w, tr) = (Returns r, s'))
   \<and> (\<forall>e. fst (uploadImage_try env imageUrl wpUrl wpUsername wpPassword (w, tr)) = Throws e \<longrightarrow>
         fst (uploadImageToWordPress env imageUrl wpUrl wpUsername wpPassword (w, tr)) = Returns None)
   \<and> (\<forall>download w1. fetch_image env imageUrl w = (Returns download, w1) \<and> \<not> ok download \<longrightarrow>
         uploadImageToWordPress env imageUrl wpUrl wpUsername wpPassword (w, tr)
           = (Returns None, (w1, tr @ [ImageDownload imageUrl (Returns download)])))
   \<and> (\<forall>img. fst (uploadImageToWordPress env imageUrl wpUrl wpUsername wpPassword (w, tr)) = Returns (Some img) \<longrightarrow>
         (\<exists>download upload u auth filename mediaData.
            snd (snd (uploadImageToWordPress env imageUrl wpUrl wpUsername wpPassword (w, tr)))
              = tr @ [ImageDownload imageUrl (Returns download), MediaUpload u auth filename (Returns upload)]
            \<and> ok download \<and> http_status upload = 201 \<and> body_json upload = Returns mediaData
            \<and> get_prop mediaData ''id'' = Returns (mediaId img)
            \<and> truthy (mediaId img) \<and> truthy (url img)
            \<and> (get_prop mediaData ''source_url'' = Returns (url img)
                \<or> (\<exists>guid. get_prop mediaData ''guid'' = Returns guid
                       \<and> get_prop guid ''rendered'' = Returns (url img))
                \<or> get_prop mediaData ''link'' = Returns (url img))))
   \<and> (\<forall>pre u auth filename upload.
         snd (snd (uploadImageToWordPress env imageUrl wpUrl wpUsername wpPassword (w, tr)))
           = pre @ [MediaUpload u auth filename (Returns upload)]
         \<and> http_status upload \<noteq> 201 \<longrightarrow>
         fst (uploadImageToWordPress env imageUrl wpUrl wpUsername wpPassword (w, tr)) = Returns None)
   \<and> (\<forall>pre u auth filename upload mediaData.
         snd (snd (uploadImageToWordPress env imageUrl wpUrl wpUsername wpPassword (w, tr)))
           = pre @ [MediaUpload u auth filename (Returns upload)]
         \<and> body_json upload = Returns mediaData
         \<and> ((\<forall>v. get_prop mediaData ''id'' = Returns v \<longrightarrow> \<not> truthy v)
              \<or> ((\<forall>v. get_prop mediaData ''source_url'' = Returns v \<longrightarrow> \<not> truthy v)
                  \<and> (\<forall>guid v. get_prop mediaData ''guid'' = Returns guid
                         \<and> get_prop guid ''rendered'' = Returns v \<longrightarrow> \<not> truthy v)
                  \<and> (\<forall>v. get_prop mediaData ''link'' = Returns v \<longrightarrow> \<not> truthy v))) \<longrightarrow>
         fst (uploadImageToWordPress env imageUrl wpUrl wpUsername wpPassword (w, tr)) = Returns None)"
proof (intro conjI allI impI)
  show "\<exists>r s'. uploadImageToWordPress env imageUrl wpUrl wpUsername wpPassword (w, tr) = (Returns r, s')"
    using uploader_returns [of env imageUrl wpUrl wpUsername wpPassword w tr] by blast
next
  fix e
  assume "fst (uploadImage_try env imageUrl wpUrl wpUsername wpPassword (w, tr)) = Throws e"
  then show "fst (uploadImageToWordPress env imageUrl wpUrl wpUsername wpPassword (w, tr)) = Returns None"
    by (auto simp: uploadImageToWordPress_def split: prod.splits)
next
  fix download w1
  assume "fetch_image env imageUrl w = (Returns download, w1) \<and> \<not> ok download"
  then show "uploadImageToWordPress env imageUrl wpUrl wpUsername wpPassword (w, tr)
           = (Returns None, (w1, tr @ [ImageDownload imageUrl (Returns download)]))"
    by (simp add: uploadImageToWordPress_def uploadImage_try_def do_fetch_image_def)
next
  fix img
  assume "fst (uploadImageToWordPress env imageUrl wpUrl wpUsername wpPassword (w, tr)) = Returns (Some img)"
  then show "\<exists>download upload u auth filename mediaData.
            snd (snd (uploadImageToWordPress env imageUrl wpUrl wpUsername wpPassword (w, tr)))
              = tr @ [ImageDownload imageUrl (Returns download), MediaUpload u auth filename (Returns upload)]
            \<and> ok download \<and> http_status upload = 201 \<and> body_json upload = Returns mediaData
            \<and> get_prop mediaData ''id'' = Returns (mediaId img)
            \<and> truthy (mediaId img) \<and> truthy (url img)
            \<and> (get_prop mediaData ''source_url'' = Returns (url img)
                \<or> (\<exists>guid. get_prop mediaData ''guid'' = Returns guid
                       \<and> get_prop guid ''rendered'' = Returns (url img))
                \<or> get_prop mediaData ''link'' = Returns (url img))"
    by (rule uploader_Some)
next
  fix pre u auth filename upload
  assume a: "snd (snd (uploadImageToWordPress env imageUrl wpUrl wpUsername wpPassword (w, tr)))
           = pre @ [MediaUpload u auth filename (Returns upload)]
         \<and> http_status upload \<noteq> 201"
  obtain r s' where r: "uploadImageToWordPress env imageUrl wpUrl wpUsername wpPassword (w, tr) = (Returns r, s')"
    using uploader_returns [of env imageUrl wpUrl wpUsername wpPassword w tr] by blast
  show "fst (uploadImageToWordPress env imageUrl wpUrl wpUsername wpPassword (w, tr)) = Returns None"
  proof (cases r)
    case None
    with r show ?thesis by simp
  next
    case (Some img)
    with r have "fst (uploadImageToWordPress env imageUrl wpUrl wpUsername wpPassword (w, tr)) = Returns (Some img)"
      by simp
    from uploader_Some [OF this] a show ?thesis by auto
  qed
next
  fix pre u auth filename upload mediaData
  assume a: "snd (snd (uploadImageToWordPress env imageUrl wpUrl wpUsername wpPassword (w, tr)))
           = pre @ [MediaUpload u auth filename (Returns upload)]
         \<and> body_json upload = Returns mediaData
         \<and> ((\<forall>v. get_prop mediaData ''id'' = Returns v \<longrightarrow> \<not> truthy v)
              \<or> ((\<forall>v. get_prop mediaData ''source_url'' = Returns v \<longrightarrow> \<not> truthy v)
                  \<and> (\<forall>guid v. get_prop mediaData ''guid'' = Returns guid
                         \<and> get_prop guid ''rendered'' = Returns v \<longrightarrow> \<not> truthy v)
                  \<and> (\<forall>v. get_prop mediaData ''link'' = Returns v \<longrightarrow> \<not> truthy v)))"
  obtain r s' where r: "uploadImageToWordPress env imageUrl wpUrl wpUsername wpPassword (w, tr) = (Returns r, s')"
    using uploader_returns [of env imageUrl wpUrl wpUsername wpPassword w tr] by blast
  show "fst (uploadImageToWordPress env imageUrl wpUrl wpUsername wpPassword (w, tr)) = Returns None"
  proof (cases r)
    case None
    with r show ?thesis by simp
  next
    case (Some img)
    with r have "fst (uploadImageToWordPress env imageUrl wpUrl wpUsername wpPassword (w, tr)) = Returns (Some img)"
      by simp
    from uploader_Some [OF this] obtain download upload' u' auth' filename' mediaData' where
      t: "snd (snd (uploadImageToWordPress env imageUrl wpUrl wpUsername wpPassword (w, tr)))
              = tr @ [ImageDownload imageUrl (Returns download), MediaUpload u' auth' filename' (Returns upload')]"
      and b: "body_json upload' = Returns mediaData'"
      and i: "get_prop mediaData' ''id'' = Returns (mediaId img)" "truthy (mediaId img)" "truthy (url img)"
      and f: "get_prop mediaData' ''source_url'' = Returns (url img)
                \<or> (\<exists>guid. get_prop mediaData' ''guid'' = Returns guid
                       \<and> get_prop guid ''rendered'' = Returns (url img))
                \<or> get_prop mediaData' ''link'' = Returns (url img)"
      by blast
    from t a have "upload' = upload" by auto
    with a b have "mediaData' = mediaData" by simp
    with a i f show ?thesis by blast
  qed
qed


theorem uploader_never_raises_witness:
  "fst (uploadImageToWordPress offline_env (JStr ''http://img/1.jpg'') ''https://blog.example/'' ''admin'' ''secret''
          ([], [])) = Returns None
   \<and> fst (uploadImageToWordPress sample_env (JStr ''http://img/2.jpg'') ''https://blog.example/'' ''admin'' ''secret''
          ([], [])) = Returns None
   \<and> fst (uploadImageToWordPress urlless_env (JStr ''http://img/1.jpg'') ''https://blog.example/'' ''admin'' ''secret''
          ([], [])) = Returns None
   \<and> (\<exists>download upload u auth filename mediaData.
         snd (snd (uploadImageToWordPress sample_env (JStr ''http://img/1.jpg'') ''https://blog.example/''
                     ''admin'' ''secret'' ([], [])))
           = [ImageDownload (JStr ''http://img/1.jpg'') (Returns download),
              MediaUpload u auth filename (Returns upload)]
         \<and> ok download \<and> http_status upload = 201 \<and> body_json upload = Returns mediaData
         \<and> (get_prop mediaData ''source_url'' = Returns (JStr ''https://blog.example/media/1.jpg'')
             \<or> (\<exists>guid. get_prop mediaData ''guid'' = Returns guid
                    \<and> get_prop guid ''rendered'' = Returns (JStr ''https://blog.example/media/1.jpg''))
             \<or> get_prop mediaData ''link'' = Returns (JStr ''https://blog.example/media/1.jpg'')))"
proof (intro conjI)
  have "fst (uploadImage_try offline_env (JStr ''http://img/1.jpg'') ''https://blog.example/'' ''admin'' ''secret''
          ([], [])) = Throws ''fetch failed''"
    by (simp add: offline_env_def sample_env_def uploadImage_try_def do_fetch_image_def)
  with uploader_never_raises [of offline_env "JStr ''http://img/1.jpg''" "''https://blog.example/''"
         "''admin''" "''secret''" "[]" "[]"]
  show "fst (uploadImageToWordPress offline_env (JStr ''http://img/1.jpg'') ''https://blog.example/'' ''admin'' ''secret''
          ([], [])) = Returns None"
    by blast
next
  have st: "http_status sample_media_refused \<noteq> 201" by (simp add: sample_media_refused_def)
  note t = uploader_never_raises [of sample_env "JStr ''http://img/2.jpg''" "''https://blog.example/''"
             "''admin''" "''secret''" "[]" "[]",
             THEN conjunct2, THEN conjunct2, THEN conjunct2, THEN conjunct2, THEN conjunct1, rule_format,
             OF conjI [OF sample_upload_refused_trace st]]
  show "fst (uploadImageToWordPress sample_env (JStr ''http://img/2.jpg'') ''https://blog.example/'' ''admin'' ''secret''
          ([], [])) = Returns None"
    by (rule t)
next
  have b: "body_json sample_media_without_url = Returns (JObj [(''id'', JNum 11)])"
    by (simp add: sample_media_without_url_def)
  have f: "(\<forall>v. get_prop (JObj [(''id'', JNum 11)]) ''id'' = Returns v \<longrightarrow> \<not> truthy v)
            \<or> ((\<forall>v. get_prop (JObj [(''id'', JNum 11)]) ''source_url'' = Returns v \<longrightarrow> \<not> truthy v)
                \<and> (\<forall>guid v. get_prop (JObj [(''id'', JNum 11)]) ''guid'' = Returns guid
                       \<and> get_prop guid ''rendered'' = Returns v \<longrightarrow> \<not> truthy v)
                \<and> (\<forall>v. get_prop (JObj [(''id'', JNum 11)]) ''link'' = Returns v \<longrightarrow> \<not> truthy v))"
    by auto
  note t = uploader_never_raises [of urlless_env "JStr ''http://img/1.jpg''" "''https://blog.example/''"
             "''admin''" "''secret''" "[]" "[]",
             THEN conjunct2, THEN conjunct2, THEN conjunct2, THEN conjunct2, THEN conjunct2, rule_format,
             OF conjI [OF sample_upload_urlless_trace conjI [OF b f]]]
  show "fst (uploadImageToWordPress urlless_env (JStr ''http://img/1.jpg'') ''https://blog.example/'' ''admin'' ''secret''
          ([], [])) = Returns None"
    by (rule t)
next
  from uploader_never_raises [of sample_env "JStr ''http://img/1.jpg''" "''https://blog.example/''"
         "''admin''" "''secret''" "[]" "[]", THEN conjunct2, THEN conjunct2, THEN conjunct2, THEN conjunct1,
         rule_format, OF sample_upload_first]
  show "\<exists>download upload u auth filename mediaData.
         snd (snd (uploadImageToWordPress sample_env (JStr ''http://img/1.jpg'') ''https://blog.example/''
                     ''admin'' ''secret'' ([], [])))
           = [ImageDownload (JStr ''http://img/1.jpg'') (Returns download),
              MediaUpload u auth filename (Returns upload)]
         \<and> ok download \<and> http_status upload = 201 \<and> body_json upload = Returns mediaData
         \<and> (get_prop mediaData ''source_url'' = Returns (JStr ''https://blog.example/media/1.jpg'')
             \<or> (\<exists>guid. get_prop mediaData ''guid'' = Returns guid
                    \<and> get_prop guid ''rendered'' = Returns (JStr ''https://blog.example/media/1.jpg''))
             \<or> get_prop mediaData ''link'' = Returns (JStr ''https://blog.example/media/1.jpg''))"
    by (simp only: uploaded.select_convs append_Nil) blast
qed

section \<open>The publish handler: images\<close>

text \<open>
  C5. In a publish request that reaches the uploads, the handler downloads the urls
  decoded from the tweet's \<open>media_urls\<close>, each once and in input order, and keeps the
  uploads that succeeded, in that order, skipping the failures. It submits a post
  whenever the article renders, and every post it submits carries the article's title,
  the requested status (\<open>publish\<close> by default), the media id of the first kept image as
  \<open>featured_media\<close> (none when no upload succeeded), and as content the rendered article
  followed by the gallery of the kept images after the first (one figure per image with
  its hosted url, in order) and the attribution line. In particular, with three urls of
  which only the second upload fails, the featured image is the first upload and the
  gallery holds the third alone.
\<close>

theorem uploads_in_order_first_featured_rest_gallery:
  assumes "request_json env w = (Returns body, w0)"
    and "destructure_body body = Returns (JStr language, published, status)"
    and "truthy published"
    and "language = ''english'' \<or> language = ''french''"
    and "parseInt env params_id = Some i"
    and "tweets_getAll env 10000 0 w0 = (Returns rows, w1)"
    and "find (\<lambda>t. row_id t = i) rows = Some tweet"
    and "truthy (if language = ''english'' then article_english tweet else article_french tweet)"
    and "decode_article env (if language = ''english'' then article_english tweet else article_french tweet)
           = Returns articleData"
    and "article_incomplete articleData = Returns False"
    and "title_and_markdown articleData = Returns (title, markdown)"
    and "settings_get env (if language = ''english'' then ''wordpressEnglishUrl'' else ''wordpressFrenchUrl'') w1
           = (Returns (Some wpUrl), w2)"
    and "settings_get env (if language = ''english'' then ''wordpressEnglishUsername''
                           else ''wordpressFrenchUsername'') w2
           = (Returns (Some wpUsername), w3)"
    and "settings_get env (if language = ''english'' then ''wordpressEnglishPassword''
                           else ''wordpressFrenchPassword'') w3
           = (Returns (Some wpPassword), w4)"
    and "wpUrl \<noteq> []" and "wpUsername \<noteq> []" and "wpPassword \<noteq> []"
    and s: "s = (w4, tr @ GetAll 10000 0 #
                     map SettingsGet
                       (if language = ''english''
                        then [''wordpressEnglishUrl'', ''wordpressEnglishUsername'', ''wordpressEnglishPassword'']
                        else [''wordpressFrenchUrl'', ''wordpressFrenchUsername'', ''wordpressFrenchPassword'']))"
    and mu: "mediaUrls = decode_media env (media_urls tweet)"
    and ui: "uploadedImages = successes (upload_attempts env mediaUrls wpUrl wpUsername wpPassword s)"
  shows "\<exists>evs. snd (snd (POST env params_id (w, tr))) = snd s @ evs
           \<and> downloads evs = mediaUrls
           \<and> (\<forall>html. marked env markdown = Returns html \<longrightarrow> (\<exists>u auth d x. PostCreate u auth d x \<in> set evs))
           \<and> (\<forall>u auth d x. PostCreate u auth d x \<in> set evs \<longrightarrow>
                 (\<exists>html. marked env markdown = Returns html
                    \<and> get_prop d ''title'' = Returns title
                    \<and> get_prop d ''status'' = Returns (if truthy status then status else JStr ''publish'')
                    \<and> get_prop d ''featured_media''
                        = Returns (case uploadedImages of [] \<Rightarrow> JUndefined | first # others \<Rightarrow> mediaId first)
                    \<and> get_prop d ''content''
                        = Returns (JStr (expected_content html (tl uploadedImages) tweet))))
           \<and> (\<forall>u1 u2 u3 a c.
                 mediaUrls = [u1, u2, u3]
                 \<and> upload_attempts env mediaUrls wpUrl wpUsername wpPassword s
                     = [Returns (Some a), Returns None, Returns (Some c)] \<longrightarrow>
                 uploadedImages = [a, c]
                 \<and> (\<forall>u auth d x. PostCreate u auth d x \<in> set evs \<longrightarrow>
                       get_prop d ''featured_media'' = Returns (mediaId a)
                       \<and> (\<exists>html. get_prop d ''content'' = Returns (JStr (expected_content html [c] tweet)))))"
proof -
  note path = POST_try_publishes [OF assms(1-17), of tr, folded s mu]
  obtain r w' tr' where
    run0: "submit_post env i language status tweet title markdown mediaUrls wpUrl wpUsername wpPassword s
             = (r, (w', tr'))"
    by (metis prod.exhaust)
  obtain w5 tr5 where s5: "s = (w5, tr5)" by (cases s)
  from submit_post_shape [OF run0 [unfolded s5]] obtain pre tail where
    t: "tr' = tr5 @ pre @ tail" and d: "downloads pre = mediaUrls" and e: "publish_tail i language r tail"
    by blast
  have run: "submit_post env i language status tweet title markdown mediaUrls wpUrl wpUsername wpPassword (w5, tr5)
               = (r, (w', tr5 @ (pre @ tail)))"
    using run0 s5 t by simp
  have trace: "snd (snd (POST env params_id (w, tr))) = snd s @ (pre @ tail)"
    using path run0 s5 t by (cases r) (simp_all add: POST_def)
  have dl: "downloads (pre @ tail) = mediaUrls"
    using d publish_tail_downloads [OF e] by (simp add: downloads_append)
  have posts: "\<exists>u auth d x. PostCreate u auth d x \<in> set (pre @ tail)"
    if "marked env markdown = Returns html" for html
    by (rule submit_post_posts [OF run that])
  have payload: "\<exists>html. marked env markdown = Returns html
                    \<and> get_prop d ''title'' = Returns title
                    \<and> get_prop d ''status'' = Returns (if truthy status then status else JStr ''publish'')
                    \<and> get_prop d ''featured_media''
                        = Returns (case uploadedImages of [] \<Rightarrow> JUndefined | first # others \<Rightarrow> mediaId first)
                    \<and> get_prop d ''content''
                        = Returns (JStr (expected_content html (tl uploadedImages) tweet))"
    if "PostCreate u auth d x \<in> set (pre @ tail)" for u auth d x
  proof -
    from submit_post_payload [OF run that] obtain html where
      m: "marked env markdown = Returns html"
      and dd: "d = post_data title (full_content html (images_html uploadedImages) tweet) status
                     (featured_media_id uploadedImages)"
      unfolding ui s5 by blast
    show ?thesis
      using m featured_of_successes [OF ui [unfolded s5]]
      unfolding dd by (simp add: post_data_fields full_content_expected)
  qed
  have three: "uploadedImages = [a, c]
                 \<and> (\<forall>u auth d x. PostCreate u auth d x \<in> set (pre @ tail) \<longrightarrow>
                       get_prop d ''featured_media'' = Returns (mediaId a)
                       \<and> (\<exists>html. get_prop d ''content'' = Returns (JStr (expected_content html [c] tweet))))"
    if h: "mediaUrls = [u1, u2, u3]
                 \<and> upload_attempts env mediaUrls wpUrl wpUsername wpPassword s
                     = [Returns (Some a), Returns None, Returns (Some c)]" for u1 u2 u3 a c
  proof -
    from h have "upload_attempts env mediaUrls wpUrl wpUsername wpPassword s
                     = [Returns (Some a), Returns None, Returns (Some c)]" by (rule conjunct2)
    then have "uploadedImages = successes [Returns (Some a), Returns None, Returns (Some c)]"
      unfolding ui by (rule arg_cong)
    then have u: "uploadedImages = [a, c]" by simp
    show ?thesis
    proof (intro conjI allI impI)
      show "uploadedImages = [a, c]" by (rule u)
    next
      fix u auth d x
      assume "PostCreate u auth d x \<in> set (pre @ tail)"
      from payload [OF this] u
      show "get_prop d ''featured_media'' = Returns (mediaId a)"
        and "\<exists>html. get_prop d ''content'' = Returns (JStr (expected_content html [c] tweet))"
        by auto
    qed
  qed
  show ?thesis
    by (rule exI [of _ "pre @ tail"]) (use trace dl posts payload three in blast)
qed


theorem uploads_in_order_first_featured_rest_gallery_witness:
  "\<exists>evs. snd (snd (POST sample_env ''42'' ([other_tweet, sample_tweet], [])))
            = [GetAll 10000 0, SettingsGet ''wordpressEnglishUrl'', SettingsGet ''wordpressEnglishUsername'',
               SettingsGet ''wordpressEnglishPassword''] @ evs
         \<and> downloads evs = [JStr ''http://img/1.jpg'', JStr ''http://img/2.jpg'', JStr ''http://img/3.jpg'']
         \<and> (\<exists>u auth d x.
               PostCreate u auth d x \<in> set evs
               \<and> get_prop d ''title'' = Returns (JStr ''Hello'')
               \<and> get_prop d ''featured_media'' = Returns (JNum 11)
               \<and> get_prop d ''content''
                   = Returns (JStr (expected_content ''<p>Some *text*</p>''
                                      [\<lparr>mediaId = JNum 13, url = JStr ''https://blog.example/media/3.jpg''\<rparr>]
                                      sample_tweet)))"
proof -
  have h1: "request_json sample_env [other_tweet, sample_tweet]
              = (Returns (JObj [(''language'', JStr ''english''), (''published'', JBool True)]),
                 [other_tweet, sample_tweet])"
    by (simp add: sample_env_def)
  have h2: "destructure_body (JObj [(''language'', JStr ''english''), (''published'', JBool True)])
              = Returns (JStr ''english'', JBool True, JUndefined)"
    by (simp add: destructure_body_def)
  have h3: "truthy (JBool True)" by simp
  have h4: "''english'' = ''english'' \<or> ''english'' = ''french''" by simp
  have h5: "parseInt sample_env ''42'' = Some 42" by (simp add: sample_env_def)
  have h6: "tweets_getAll sample_env 10000 0 [other_tweet, sample_tweet]
              = (Returns [other_tweet, sample_tweet], [other_tweet, sample_tweet])"
    by (simp add: sample_env_def store_getAll_def)
  have h7: "find (\<lambda>t. row_id t = 42) [other_tweet, sample_tweet] = Some sample_tweet"
    by (simp add: sample_tweet_def other_tweet_def)
  have h8: "truthy (if ''english'' = ''english'' then article_english sample_tweet else article_french sample_tweet)"
    by (simp add: sample_tweet_def sample_article_def)
  have h9: "decode_article sample_env
              (if ''english'' = ''english'' then article_english sample_tweet else article_french sample_tweet)
              = Returns sample_article"
    by (simp add: sample_tweet_def sample_article_def decode_article_def)
  have h10: "article_incomplete sample_article = Returns False"
    by (simp add: sample_article_def article_incomplete_def)
  have h11: "title_and_markdown sample_article = Returns (JStr ''Hello'', JStr ''Some *text*'')"
    by (simp add: sample_article_def title_and_markdown_def)
  have h12: "settings_get sample_env
               (if ''english'' = ''english'' then ''wordpressEnglishUrl'' else ''wordpressFrenchUrl'')
               [other_tweet, sample_tweet]
              = (Returns (Some ''https://blog.example/''), [other_tweet, sample_tweet])"
    by (simp add: sample_env_def sample_settings_def)
  have h13: "settings_get sample_env
               (if ''english'' = ''english'' then ''wordpressEnglishUsername'' else ''wordpressFrenchUsername'')
               [other_tweet, sample_tweet]
              = (Returns (Some ''admin''), [other_tweet, sample_tweet])"
    by (simp add: sample_env_def sample_settings_def)
  have h14: "settings_get sample_env
               (if ''english'' = ''english'' then ''wordpressEnglishPassword'' else ''wordpressFrenchPassword'')
               [other_tweet, sample_tweet]
              = (Returns (Some ''secret''), [other_tweet, sample_tweet])"
    by (simp add: sample_env_def sample_settings_def)
  have h15: "''https://blog.example/'' \<noteq> []" and h16: "''admin'' \<noteq> []" and h17: "''secret'' \<noteq> []"
    by simp_all
  have mk: "marked sample_env (JStr ''Some *text*'') = Returns ''<p>Some *text*</p>''"
    by (simp add: sample_env_def)
  from uploads_in_order_first_featured_rest_gallery
         [where tr = "[]", OF h1 h2 h3 h4 h5 h6 h7 h8 h9 h10 h11 h12 h13 h14 h15 h16 h17 refl refl refl]
  obtain evs where
    tr: "snd (snd (POST sample_env ''42'' ([other_tweet, sample_tweet], [])))
            = [GetAll 10000 0, SettingsGet ''wordpressEnglishUrl'', SettingsGet ''wordpressEnglishUsername'',
               SettingsGet ''wordpressEnglishPassword''] @ evs"
    and dl: "downloads evs = [JStr ''http://img/1.jpg'', JStr ''http://img/2.jpg'', JStr ''http://img/3.jpg'']"
    and posted: "\<exists>u auth d x. PostCreate u auth d x \<in> set evs"
    and payload: "\<forall>u auth d x. PostCreate u auth d x \<in> set evs \<longrightarrow>
                 (\<exists>html. marked sample_env (JStr ''Some *text*'') = Returns html
                    \<and> get_prop d ''title'' = Returns (JStr ''Hello'')
                    \<and> get_prop d ''featured_media'' = Returns (JNum 11)
                    \<and> get_prop d ''content''
                        = Returns (JStr (expected_content html
                             [\<lparr>mediaId = JNum 13, url = JStr ''https://blog.example/media/3.jpg''\<rparr>]
                             sample_tweet)))"
    using mk
    by (simp add: sample_media_urls sample_attempts del: upload_attempts.simps) blast
  from posted obtain u auth d x where p: "PostCreate u auth d x \<in> set evs" by blast
  from payload p mk have
    "get_prop d ''title'' = Returns (JStr ''Hello'')
     \<and> get_prop d ''featured_media'' = Returns (JNum 11)
     \<and> get_prop d ''content''
          = Returns (JStr (expected_content ''<p>Some *text*</p>''
                             [\<lparr>mediaId = JNum 13, url = JStr ''https://blog.example/media/3.jpg''\<rparr>]
                             sample_tweet))"
    by auto
  with tr dl p show ?thesis by blast
qed

section \<open>The publish handler: decoding the media list and the article\<close>

text \<open>
  C7, as the code has it. Decoding \<open>media_urls\<close> never makes the request fail, and the
  field acts on the run only through the list of urls decoded from it. Malformed JSON
  and a value that is not an array give the empty list, so the run is the one of a tweet
  without media. In an array that has no \<open>null\<close> entry, every entry that is a non-empty
  string or an object with a truthy \<open>mediaUrl\<close> or \<open>url\<close> gives its url, in order, and
  every other entry is skipped. A failure to decode the article itself answers 400
  "Invalid article data format".
\<close>

theorem media_decoding_is_lenient:
  "(\<forall>e. JSON_parse env str = Throws e \<longrightarrow> decode_media env (Some str) = [])
   \<and> (\<forall>v. JSON_parse env str = Returns v \<and> (\<forall>items. v \<noteq> JArr items) \<longrightarrow> decode_media env (Some str) = [])
   \<and> (\<forall>items. str \<noteq> [] \<and> JSON_parse env str = Returns (JArr items)
                 \<and> JNull \<notin> set items \<and> JUndefined \<notin> set items \<longrightarrow>
         decode_media env (Some str) = filter truthy (map entry_url items))
   \<and> decode_media env None = []
   \<and> (decode_media env m = decode_media env m' \<longrightarrow>
         publish env i language status (tweet\<lparr>media_urls := m\<rparr>) s
           = publish env i language status (tweet\<lparr>media_urls := m'\<rparr>) s)
   \<and> (\<forall>e. truthy (if language = ''english'' then article_english tweet else article_french tweet)
            \<and> decode_article env (if language = ''english'' then article_english tweet else article_french tweet)
                = Throws e \<longrightarrow>
         publish env i language status tweet s
           = (Returns (NextResponse_json (JObj [(''error'', JStr ''Invalid article data format'')]) 400), s))"
proof (intro conjI allI impI)
  fix e assume "JSON_parse env str = Throws e"
  then show "decode_media env (Some str) = []"
    by (simp add: decode_media_def)
next
  fix v assume "JSON_parse env str = Returns v \<and> (\<forall>items. v \<noteq> JArr items)"
  then show "decode_media env (Some str) = []"
    by (cases v) (auto simp: decode_media_def)
next
  fix items
  assume "str \<noteq> [] \<and> JSON_parse env str = Returns (JArr items)
            \<and> JNull \<notin> set items \<and> JUndefined \<notin> set items"
  then show "decode_media env (Some str) = filter truthy (map entry_url items)"
    using collect_media_filter [of items "[]"] by (simp add: decode_media_def)
next
  show "decode_media env None = []" by (simp add: decode_media_def)
next
  assume "decode_media env m = decode_media env m'"
  then show "publish env i language status (tweet\<lparr>media_urls := m\<rparr>) s
           = publish env i language status (tweet\<lparr>media_urls := m'\<rparr>) s"
    by (rule publish_same_media)
next
  fix e
  assume "truthy (if language = ''english'' then article_english tweet else article_french tweet)
            \<and> decode_article env (if language = ''english'' then article_english tweet else article_french tweet)
                = Throws e"
  then show "publish env i language status tweet s
           = (Returns (NextResponse_json (JObj [(''error'', JStr ''Invalid article data format'')]) 400), s)"
    by (simp add: publish_def error_reply_def Let_def)
qed

text \<open>
  C7 as stated fails: in the media list \<open>["http://img/1.jpg", 5]\<close> the entry \<open>5\<close> carries no
  url, and the run does not proceed as if the tweet had no media: the first image is
  downloaded, while the same tweet without media downloads nothing.
\<close>

theorem mixed_media_is_not_no_media:
  "decode_media sample_env (media_urls mixed_tweet) = [JStr ''http://img/1.jpg'']
   \<and> downloads (snd (snd (POST sample_env ''42'' ([mixed_tweet], [])))) = [JStr ''http://img/1.jpg'']
   \<and> downloads (snd (snd (POST sample_env ''42'' ([mixed_tweet\<lparr>media_urls := None\<rparr>], [])))) = []"
  by (simp add: model_defs sample_defs Let_def)

theorem media_decoding_is_lenient_witness:
  "decode_media sample_env (Some ''not json'') = []
   \<and> decode_media sample_env (Some mixed_media) = [JStr ''http://img/1.jpg'']
   \<and> publish sample_env 42 ''english'' JUndefined (sample_tweet\<lparr>media_urls := Some ''not json''\<rparr>) ([], [])
       = publish sample_env 42 ''english'' JUndefined (sample_tweet\<lparr>media_urls := None\<rparr>) ([], [])
   \<and> publish sample_env 42 ''english'' JUndefined broken_tweet ([], [])
       = (Returns (NextResponse_json (JObj [(''error'', JStr ''Invalid article data format'')]) 400), ([], []))"
proof -
  have p1: "JSON_parse sample_env ''not json'' = Throws ''Unexpected token''"
    by (simp add: sample_env_def sample_parse_def sample_media_def)
  have p2: "mixed_media \<noteq> [] \<and> JSON_parse sample_env mixed_media = Returns (JArr [JStr ''http://img/1.jpg'', JNum 5])
              \<and> JNull \<notin> set [JStr ''http://img/1.jpg'', JNum 5]
              \<and> JUndefined \<notin> set [JStr ''http://img/1.jpg'', JNum 5]"
    by (simp add: sample_env_def sample_parse_def sample_media_def mixed_media_def)
  have p3: "truthy (if ''english'' = ''english'' then article_english broken_tweet else article_french broken_tweet)
              \<and> decode_article sample_env
                   (if ''english'' = ''english'' then article_english broken_tweet else article_french broken_tweet)
                  = Throws ''Unexpected token''"
    by (simp add: broken_tweet_def sample_tweet_def decode_article_def sample_env_def sample_parse_def
                  sample_media_def)
  note t1 = media_decoding_is_lenient [of sample_env "''not json''", THEN conjunct1, rule_format, OF p1]
  note t2 = media_decoding_is_lenient [of sample_env mixed_media, THEN conjunct2, THEN conjunct2, THEN conjunct1,
              rule_format, OF p2]
  note t4 = media_decoding_is_lenient [of sample_env _ "Some ''not json''" None 42 "''english''" JUndefined
              sample_tweet "([], [])",
              THEN conjunct2, THEN conjunct2, THEN conjunct2]
  note t6 = media_decoding_is_lenient [of sample_env _ _ _ 42 "''english''" JUndefined broken_tweet "([], [])",
              THEN conjunct2, THEN conjunct2, THEN conjunct2, THEN conjunct2, THEN conjunct2,
              rule_format, OF p3]
  from t1 t4 have same: "publish sample_env 42 ''english'' JUndefined (sample_tweet\<lparr>media_urls := Some ''not json''\<rparr>) ([], [])
       = publish sample_env 42 ''english'' JUndefined (sample_tweet\<lparr>media_urls := None\<rparr>) ([], [])"
    by simp
  from t2 have "decode_media sample_env (Some mixed_media) = [JStr ''http://img/1.jpg'']" by simp
  with t1 same t6 show ?thesis by blast
qed

end
